theory Spec2Isabelle
  imports Complex_Main
begin

section \<open>Drift detection: the detector of \<open>src/drift_detector.py\<close>\<close>

text \<open>
  The detector compares a reference table with a candidate table by two statistical tests
  and keeps the outcome in its own report state. The model below follows the Python
  class method by method. Mutation of \<open>self\<close> is explicit state passing: every method
  returns its result together with the detector after the call, also when it raises, so that
  what an exception leaves behind in the report can be stated. The two routines of the
  statistics library are a parameter of the model (a record of functions); a model of the
  routines themselves follows in a section of its own.
\<close>

subsection \<open>Numbers and errors\<close>

text \<open>
  Python floats are modelled by exact reals together with the three special values of
  IEEE arithmetic that the tests can produce. Rounding is not modelled.
\<close>

datatype pyfloat = Fin real | PosInf | NegInf | NaN

text \<open>The comparison \<open>a < b\<close> on floats: every comparison with NaN is false.\<close>

fun float_lt :: "pyfloat \<Rightarrow> pyfloat \<Rightarrow> bool" where
  "float_lt NaN _ = False"
| "float_lt _ NaN = False"
| "float_lt (Fin a) (Fin b) = (a < b)"
| "float_lt (Fin a) PosInf = True"
| "float_lt (Fin a) NegInf = False"
| "float_lt PosInf _ = False"
| "float_lt NegInf NegInf = False"
| "float_lt NegInf _ = True"

fun float_add :: "pyfloat \<Rightarrow> pyfloat \<Rightarrow> pyfloat" where
  "float_add NaN _ = NaN"
| "float_add _ NaN = NaN"
| "float_add (Fin a) (Fin b) = Fin (a + b)"
| "float_add PosInf NegInf = NaN"
| "float_add NegInf PosInf = NaN"
| "float_add PosInf _ = PosInf"
| "float_add _ PosInf = PosInf"
| "float_add NegInf _ = NegInf"
| "float_add _ NegInf = NegInf"

text \<open>The exceptions that can leave the detector.\<close>

datatype error =
  FileNotFoundError string | KeyError string | AttributeError string | ValueError string

subsection \<open>Tables and series\<close>

text \<open>
  A loaded table has the two columns the detector reads, \<open>sentiment\<close> (integer labels)
  and \<open>review\<close> (texts). Either may be missing from the file, and indexing a missing
  column raises \<open>KeyError\<close>. A cell of \<open>review\<close> that is empty in the file is loaded as
  a missing value (NaN), here \<open>None\<close>; the other cells are strings.
\<close>

record dataframe =
  sentiment :: "int list option"
  review :: "string option list option"

definition get_sentiment :: "dataframe \<Rightarrow> error + int list" where
  "get_sentiment df = (case sentiment df of None \<Rightarrow> Inl (KeyError ''sentiment'') | Some c \<Rightarrow> Inr c)"

definition get_review :: "dataframe \<Rightarrow> error + string option list" where
  "get_review df = (case review df of None \<Rightarrow> Inl (KeyError ''review'') | Some c \<Rightarrow> Inr c)"

text \<open>
  \<open>pd.read_csv\<close>: the file system is a map from paths to the tables that the loader
  makes of the files.
\<close>

definition read_csv :: "(string \<rightharpoonup> dataframe) \<Rightarrow> string \<Rightarrow> error + dataframe" where
  "read_csv fs path = (case fs path of None \<Rightarrow> Inl (FileNotFoundError path) | Some df \<Rightarrow> Inr df)"

text \<open>
  A series of counts is a list of (index, value) pairs in its positional order.
  \<open>value_counts\<close> has one entry for each distinct value, the most frequent first and
  equally frequent values in the order of their first appearance; \<open>sort_index\<close> orders
  the entries by index.
\<close>

type_synonym series = "(int \<times> int) list"

definition value_counts :: "int list \<Rightarrow> series" where
  "value_counts xs =
     sort_key (\<lambda>(k, c). - c)
       (map (\<lambda>k. (k, int (count_list xs k))) (rev (remdups (rev xs))))"

definition sort_index :: "series \<Rightarrow> series" where
  "sort_index s = sort_key fst s"

definition index :: "series \<Rightarrow> int list" where
  "index s = map fst s"

definition values_of :: "series \<Rightarrow> int list" where
  "values_of s = map snd s"

text \<open>\<open>s[label] = v\<close>: overwrites the entry of an index that exists, appends a new one otherwise.\<close>

definition setitem :: "series \<Rightarrow> int \<Rightarrow> int \<Rightarrow> series" where
  "setitem s label v =
     (if label \<in> set (index s) then map (\<lambda>(k, c). if k = label then (k, v) else (k, c)) s
      else s @ [(label, v)])"

text \<open>\<open>to_dict\<close> keeps the order of the series; the report holds it as an association list.\<close>

definition to_dict :: "series \<Rightarrow> (int \<times> int) list" where
  "to_dict s = s"

text \<open>
  \<open>.str.len()\<close> gives the length of each text and keeps a missing value missing. A
  column that has rows and no text at all is loaded as a column of floats, on which the
  accessor \<open>.str\<close> raises \<open>AttributeError\<close>. \<open>.mean()\<close> skips the missing values;
  the mean of no value is NaN.
\<close>

definition str_len :: "string option list \<Rightarrow> error + int option list" where
  "str_len col =
     (if col \<noteq> [] \<and> (\<forall>c\<in>set col. c = None)
      then Inl (AttributeError ''Can only use .str accessor with string values!'')
      else Inr (map (map_option (\<lambda>s. int (length s))) col))"

definition present :: "int option list \<Rightarrow> int list" where
  "present xs = concat (map (\<lambda>x. case x of None \<Rightarrow> [] | Some v \<Rightarrow> [v]) xs)"

definition mean :: "int option list \<Rightarrow> pyfloat" where
  "mean xs =
     (if present xs = [] then NaN
      else Fin (real_of_int (sum_list (present xs)) / real (length (present xs))))"

subsection \<open>The statistics library as a parameter\<close>

text \<open>
  \<open>stats.chisquare f_obs f_exp\<close> and \<open>stats.ks_2samp data1 data2\<close> each return a
  statistic and a p-value, or raise. The samples of \<open>ks_2samp\<close> may hold missing values.
\<close>

record stats_lib =
  chisquare :: "int list \<Rightarrow> int list \<Rightarrow> error + (pyfloat \<times> pyfloat)"
  ks_2samp :: "int option list \<Rightarrow> int option list \<Rightarrow> error + (pyfloat \<times> pyfloat)"

subsection \<open>The detector\<close>

record label_drift_result =
  chi2_statistic :: pyfloat
  chi2_p_value :: pyfloat
  chi2_drift_detected :: bool
  old_distribution :: "(int \<times> int) list"
  new_distribution :: "(int \<times> int) list"

record text_length_drift_result =
  ks_statistic :: pyfloat
  ks_p_value :: pyfloat
  ks_drift_detected :: bool
  old_mean_length :: pyfloat
  new_mean_length :: pyfloat

text \<open>The dictionary \<open>drift_metrics\<close>: a key that has not been written is \<open>None\<close>.\<close>

record metrics =
  label_drift :: "label_drift_result option"
  text_length_drift :: "text_length_drift_result option"
  overall_drift :: "bool option"
  timestamp :: "string option"

record DriftDetector =
  threshold :: pyfloat
  drift_detected :: bool
  drift_metrics :: metrics

definition empty_metrics :: metrics where
  "empty_metrics = \<lparr>label_drift = None, text_length_drift = None, overall_drift = None, timestamp = None\<rparr>"

definition default_threshold :: pyfloat where
  "default_threshold = Fin (5 / 100)"

text \<open>\<open>__init__\<close> stores its argument and has no \<open>raise\<close>: the result is always \<open>Inr\<close>.\<close>

definition init :: "pyfloat \<Rightarrow> error + DriftDetector" where
  "init thr = Inr \<lparr>threshold = thr, drift_detected = False, drift_metrics = empty_metrics\<rparr>"

text \<open>
  Lines 27 to 38 of \<open>detect_label_drift\<close>: count, sort, add the labels 0, 1, 2 that are
  missing with count 0, sort again. The loop treats both series at each label.
\<close>

definition ensure_label :: "int \<Rightarrow> series \<times> series \<Rightarrow> series \<times> series" where
  "ensure_label label = (\<lambda>(old_dist, new_dist).
     (if label \<notin> set (index old_dist) then setitem old_dist label 0 else old_dist,
      if label \<notin> set (index new_dist) then setitem new_dist label 0 else new_dist))"

definition label_distributions :: "int list \<Rightarrow> int list \<Rightarrow> series \<times> series" where
  "label_distributions old_col new_col =
     (let old_dist = sort_index (value_counts old_col);
          new_dist = sort_index (value_counts new_col);
          (old_dist, new_dist) = fold ensure_label [0, 1, 2] (old_dist, new_dist)
      in (sort_index old_dist, sort_index new_dist))"

definition detect_label_drift ::
  "stats_lib \<Rightarrow> DriftDetector \<Rightarrow> dataframe \<Rightarrow> dataframe \<Rightarrow> (error + bool) \<times> DriftDetector" where
  "detect_label_drift L self old_data new_data =
     (case get_sentiment old_data of Inl e \<Rightarrow> (Inl e, self) | Inr old_col \<Rightarrow>
      case get_sentiment new_data of Inl e \<Rightarrow> (Inl e, self) | Inr new_col \<Rightarrow>
      let (old_dist, new_dist) = label_distributions old_col new_col in
      case chisquare L (values_of new_dist) (values_of old_dist) of
        Inl e \<Rightarrow> (Inl e, self)
      | Inr (chi2, p_value) \<Rightarrow>
          let detected = float_lt p_value (threshold self) in
          (Inr detected,
           self\<lparr>drift_metrics := (drift_metrics self)\<lparr>label_drift := Some
             \<lparr>chi2_statistic = chi2, chi2_p_value = p_value, chi2_drift_detected = detected,
              old_distribution = to_dict old_dist, new_distribution = to_dict new_dist\<rparr>\<rparr>\<rparr>))"

definition detect_text_length_drift ::
  "stats_lib \<Rightarrow> DriftDetector \<Rightarrow> dataframe \<Rightarrow> dataframe \<Rightarrow> (error + bool) \<times> DriftDetector" where
  "detect_text_length_drift L self old_data new_data =
     (case get_review old_data of Inl e \<Rightarrow> (Inl e, self) | Inr old_col \<Rightarrow>
      case str_len old_col of Inl e \<Rightarrow> (Inl e, self) | Inr old_lengths \<Rightarrow>
      case get_review new_data of Inl e \<Rightarrow> (Inl e, self) | Inr new_col \<Rightarrow>
      case str_len new_col of Inl e \<Rightarrow> (Inl e, self) | Inr new_lengths \<Rightarrow>
      case ks_2samp L old_lengths new_lengths of
        Inl e \<Rightarrow> (Inl e, self)
      | Inr (ks_stat, p_value) \<Rightarrow>
          let detected = float_lt p_value (threshold self) in
          (Inr detected,
           self\<lparr>drift_metrics := (drift_metrics self)\<lparr>text_length_drift := Some
             \<lparr>ks_statistic = ks_stat, ks_p_value = p_value, ks_drift_detected = detected,
              old_mean_length = mean old_lengths, new_mean_length = mean new_lengths\<rparr>\<rparr>\<rparr>))"

text \<open>
  \<open>check_drift\<close>; \<open>now\<close> is the reading of the clock, \<open>datetime.now().isoformat()\<close>.
  An exception of either test leaves the method at once, with whatever the detector holds
  at that point.
\<close>

definition check_drift ::
  "stats_lib \<Rightarrow> (string \<rightharpoonup> dataframe) \<Rightarrow> string \<Rightarrow> DriftDetector \<Rightarrow> string \<Rightarrow> string
     \<Rightarrow> (error + bool) \<times> DriftDetector" where
  "check_drift L fs now self old_data_path new_data_path =
     (case read_csv fs old_data_path of Inl e \<Rightarrow> (Inl e, self) | Inr old_data \<Rightarrow>
      case read_csv fs new_data_path of Inl e \<Rightarrow> (Inl e, self) | Inr new_data \<Rightarrow>
      case detect_label_drift L self old_data new_data of
        (Inl e, self1) \<Rightarrow> (Inl e, self1)
      | (Inr label_drift_flag, self1) \<Rightarrow>
      case detect_text_length_drift L self1 old_data new_data of
        (Inl e, self2) \<Rightarrow> (Inl e, self2)
      | (Inr text_drift, self2) \<Rightarrow>
          let detected = (label_drift_flag \<or> text_drift) in
          (Inr detected,
           self2\<lparr>drift_detected := detected,
                 drift_metrics := (drift_metrics self2)\<lparr>overall_drift := Some detected,
                                                       timestamp := Some now\<rparr>\<rparr>))"

section \<open>A model of the two SciPy routines\<close>

text \<open>
  The routines are not part of the repository. The definitions below follow the behaviour
  of \<open>scipy.stats.chisquare\<close> and \<open>scipy.stats.ks_2samp\<close> in the current releases of
  SciPy, on the data the detector passes, in exact arithmetic, with the IEEE results of a
  division by zero.

  \<open>chisquare\<close> reads both series by position. It raises \<open>ValueError\<close> when the two
  shapes do not broadcast (the detector always passes at least three cells, so this is when
  the lengths differ) and when the two sums disagree by more than the relative tolerance,
  the difference taken relative to the smaller sum. The tolerance is the square root of the
  machine epsilon of a double, \<open>1 / 67108864\<close>, which the routine prints as
  \<open>1.4901161193847656e-08\<close>. The statistic is Pearson's sum of
  \<open>(obs - exp)\<^sup>2 / exp\<close>, the p-value the chi-square survival function at \<open>k - 1\<close>
  degrees of freedom.
\<close>

definition pearson_term :: "int \<Rightarrow> int \<Rightarrow> pyfloat" where
  "pearson_term obs ex =
     (if ex = 0 then (if obs = 0 then NaN else PosInf)
      else Fin ((real_of_int (obs - ex))\<^sup>2 / real_of_int ex))"

definition float_sum :: "pyfloat list \<Rightarrow> pyfloat" where
  "float_sum ts = foldl float_add (Fin 0) ts"

text \<open>
  The survival function: 1 at and below 0, \<open>exp (- x / 2)\<close> at two degrees of freedom. At
  other degrees of freedom it is the regularised incomplete gamma function, which the
  model takes as the parameter \<open>Q\<close>. A survival function is a probability, and that is
  all the model fixes of \<open>Q\<close>: its values are of the type \<open>prob\<close>, the reals from 0 to 1.
\<close>

typedef prob = "{p :: real. 0 \<le> p \<and> p \<le> 1}"
  by (rule exI [of _ 0]) simp

fun chi2_sf :: "(nat \<Rightarrow> real \<Rightarrow> prob) \<Rightarrow> nat \<Rightarrow> pyfloat \<Rightarrow> pyfloat" where
  "chi2_sf Q df NaN = NaN"
| "chi2_sf Q df PosInf = (if df = 0 then NaN else Fin 0)"
| "chi2_sf Q df NegInf = (if df = 0 then NaN else Fin 1)"
| "chi2_sf Q df (Fin x) =
     (if df = 0 then NaN else if x \<le> 0 then Fin 1
      else if df = 2 then Fin (exp (- x / 2)) else Fin (Rep_prob (Q df x)))"

definition sums_disagree :: "int \<Rightarrow> int \<Rightarrow> bool" where
  "sums_disagree f_obs_sum f_exp_sum =
     (let m = min f_obs_sum f_exp_sum in
      if m = 0 then f_obs_sum \<noteq> f_exp_sum
      else \<bar>real_of_int (f_obs_sum - f_exp_sum)\<bar> / real_of_int m > 1 / 2 ^ 26)"

definition scipy_chisquare ::
  "(nat \<Rightarrow> real \<Rightarrow> prob) \<Rightarrow> int list \<Rightarrow> int list \<Rightarrow> error + (pyfloat \<times> pyfloat)" where
  "scipy_chisquare Q f_obs f_exp =
     (if length f_obs \<noteq> length f_exp then Inl (ValueError ''shape mismatch'')
      else if sums_disagree (sum_list f_obs) (sum_list f_exp)
        then Inl (ValueError ''sums of observed and expected frequencies disagree'')
      else let terms = map2 pearson_term f_obs f_exp;
               stat = float_sum terms
           in Inr (stat, chi2_sf Q (length terms - 1) stat))"

text \<open>
  \<open>ks_2samp\<close> returns NaN for the statistic and the p-value when a sample is empty or
  holds a missing value. Otherwise the statistic is the largest distance between the two
  empirical distribution functions; the p-value is 1 at distance 0 and otherwise the
  probability \<open>K n1 n2 d\<close> of the Kolmogorov-Smirnov distribution (a parameter of the
  model), clipped to the interval from 0 to 1 as the routine does.
\<close>

definition ecdf :: "int list \<Rightarrow> int \<Rightarrow> real" where
  "ecdf xs x = real (length (filter (\<lambda>y. y \<le> x) xs)) / real (length xs)"

definition ks_distance :: "int list \<Rightarrow> int list \<Rightarrow> real" where
  "ks_distance data1 data2 =
     fold max (map (\<lambda>x. \<bar>ecdf data1 x - ecdf data2 x\<bar>) (data1 @ data2)) 0"

definition clip01 :: "real \<Rightarrow> real" where
  "clip01 p = min 1 (max 0 p)"

definition scipy_ks_2samp ::
  "(nat \<Rightarrow> nat \<Rightarrow> real \<Rightarrow> real) \<Rightarrow> int option list \<Rightarrow> int option list
     \<Rightarrow> error + (pyfloat \<times> pyfloat)" where
  "scipy_ks_2samp K data1 data2 =
     (if data1 = [] \<or> data2 = [] \<or> None \<in> set data1 \<or> None \<in> set data2 then Inr (NaN, NaN)
      else let d = ks_distance (present data1) (present data2);
               prob = (if d = 0 then 1 else clip01 (K (length data1) (length data2) d))
           in Inr (Fin d, Fin prob))"

definition scipy :: "(nat \<Rightarrow> real \<Rightarrow> prob) \<Rightarrow> (nat \<Rightarrow> nat \<Rightarrow> real \<Rightarrow> real) \<Rightarrow> stats_lib" where
  "scipy Q K = \<lparr>chisquare = scipy_chisquare Q, ks_2samp = scipy_ks_2samp K\<rparr>"

section \<open>Auxiliary definitions for the proofs\<close>

text \<open>
  The label distribution of a column in closed form: the sorted keys are the labels that
  occur together with 0, 1 and 2, each with the number of its occurrences. It is proved
  below to be what \<open>label_distributions\<close> computes.
\<close>

definition keys_of :: "int list \<Rightarrow> int list" where
  "keys_of xs = sorted_list_of_set (set xs \<union> {0, 1, 2})"

definition dist_of :: "int list \<Rightarrow> series" where
  "dist_of xs = map (\<lambda>k. (k, int (count_list xs k))) (keys_of xs)"

text \<open>A sum of Pearson terms that is a number is not negative; it may be infinite.\<close>

definition nonneg_or_inf :: "pyfloat \<Rightarrow> bool" where
  "nonneg_or_inf a = (case a of Fin x \<Rightarrow> 0 \<le> x | PosInf \<Rightarrow> True | _ \<Rightarrow> False)"

section \<open>Example data\<close>

text \<open>
  Closed terms for the examples. The two distribution parameters of the library model need
  an instance there: \<open>some_sf\<close> and \<open>some_ks_prob\<close> stand in for them. They are not the
  functions of SciPy, and every example below is at a point where the model does not
  consult them. \<open>fresh\<close> is the detector that the constructor returns at the default
  threshold.
\<close>

definition some_sf :: "nat \<Rightarrow> real \<Rightarrow> prob" where
  "some_sf df x = Abs_prob (clip01 (exp (- x / 2)))"

definition some_ks_prob :: "nat \<Rightarrow> nat \<Rightarrow> real \<Rightarrow> real" where
  "some_ks_prob n1 n2 d = exp (- d)"

definition scipy_ref :: stats_lib where
  "scipy_ref = scipy some_sf some_ks_prob"

definition fresh :: DriftDetector where
  "fresh = \<lparr>threshold = default_threshold, drift_detected = False, drift_metrics = empty_metrics\<rparr>"

definition reviews_full :: dataframe where
  "reviews_full = \<lparr>sentiment = Some [0, 1, 2], review = Some [Some ''bad'', Some ''okay'', Some ''great'']\<rparr>"

definition reviews_two_labels :: dataframe where
  "reviews_two_labels = \<lparr>sentiment = Some [0, 1], review = Some [Some ''bad'', Some ''okay'']\<rparr>"

definition reviews_missing_text :: dataframe where
  "reviews_missing_text = \<lparr>sentiment = Some [0, 1, 2], review = Some [Some ''good'', None, Some ''great'']\<rparr>"

definition reviews_no_text :: dataframe where
  "reviews_no_text = \<lparr>sentiment = Some [0, 1, 2], review = None\<rparr>"

definition reviews_no_positive :: dataframe where
  "reviews_no_positive =
     \<lparr>sentiment = Some [0, 0, 1, 1], review = Some [Some ''bad'', Some ''poor'', Some ''okay'', Some ''fine'']\<rparr>"

definition reviews_shifted :: dataframe where
  "reviews_shifted =
     \<lparr>sentiment = Some [0, 1, 2, 2], review = Some [Some ''bad'', Some ''okay'', Some ''great'', Some ''best'']\<rparr>"

definition reviews_extra :: dataframe where
  "reviews_extra =
     \<lparr>sentiment = Some [0, 1, 2, 5], review = Some [Some ''bad'', Some ''okay'', Some ''great'', Some ''odd'']\<rparr>"

definition example_fs :: "string \<rightharpoonup> dataframe" where
  "example_fs = map_of [(''full.csv'', reviews_full), (''no_text.csv'', reviews_no_text)]"

definition reviews_large :: "nat \<Rightarrow> dataframe" where
  "reviews_large n =
     \<lparr>sentiment = Some (replicate n 0 @ [1, 2]), review = Some (replicate (n + 2) (Some ''ok''))\<rparr>"

section \<open>Lemmas\<close>

subsection \<open>The label distributions in closed form\<close>

lemma graph_list_eq:
  assumes "\<forall>p\<in>set ps. snd p = g (fst p)"
  shows "map (\<lambda>k. (k, g k)) (map fst ps) = ps"
  using assms by (induction ps) auto

lemma sort_index_graph:
  assumes S: "set ps = (\<lambda>k. (k, g k)) ` A" and D: "distinct (map fst ps)" and F: "finite A"
  shows "sort_index ps = map (\<lambda>k. (k, g k)) (sorted_list_of_set A)"
proof -
  let ?qs = "sort_key fst ps"
  have "sorted (map fst ?qs)" by (rule sorted_sort_key)
  moreover have "distinct (map fst ?qs)" using D by (simp add: distinct_map)
  moreover have "set (map fst ?qs) = A" using S by (simp add: image_image)
  ultimately have "map fst ?qs = sorted_list_of_set A"
    using F by (metis sorted_list_of_set.idem_if_sorted_distinct)
  moreover have "\<forall>p\<in>set ?qs. snd p = g (fst p)" using S by auto
  ultimately show ?thesis
    using graph_list_eq [of ?qs g] by (simp add: sort_index_def)
qed

lemma value_counts_set: "set (value_counts xs) = (\<lambda>k. (k, int (count_list xs k))) ` set xs"
  by (simp add: value_counts_def)

lemma value_counts_distinct: "distinct (map fst (value_counts xs))"
  by (simp add: value_counts_def distinct_map inj_on_def)

lemma ensure_graph:
  assumes S: "set s = (\<lambda>k. (k, int (count_list xs k))) ` A" and D: "distinct (map fst s)"
    and X: "set xs \<subseteq> A"
  shows "set (if l \<notin> set (index s) then setitem s l 0 else s) = (\<lambda>k. (k, int (count_list xs k))) ` (insert l A)
       \<and> distinct (map fst (if l \<notin> set (index s) then setitem s l 0 else s))"
proof (cases "l \<in> A")
  case True
  then have "l \<in> set (index s)" using S by (force simp: index_def)
  with True S D show ?thesis by (simp add: insert_absorb)
next
  case False
  then have n: "l \<notin> set (index s)" using S by (auto simp: index_def)
  from False X have "count_list xs l = 0" by (auto simp: count_list_0_iff)
  with n S D show ?thesis by (auto simp: setitem_def index_def)
qed

lemma fold_ensure_pair:
  "fold ensure_label ls (a, b) =
     (fold (\<lambda>l s. if l \<notin> set (index s) then setitem s l 0 else s) ls a,
      fold (\<lambda>l s. if l \<notin> set (index s) then setitem s l 0 else s) ls b)"
  by (induction ls arbitrary: a b) (simp_all add: ensure_label_def)

lemma fold_ensure_graph:
  assumes "set s = (\<lambda>k. (k, int (count_list xs k))) ` A" "distinct (map fst s)" "set xs \<subseteq> A"
  shows "set (fold (\<lambda>l s. if l \<notin> set (index s) then setitem s l 0 else s) ls s)
           = (\<lambda>k. (k, int (count_list xs k))) ` (set ls \<union> A)
       \<and> distinct (map fst (fold (\<lambda>l s. if l \<notin> set (index s) then setitem s l 0 else s) ls s))"
  using assms
proof (induction ls arbitrary: s A)
  case Nil
  then show ?case by simp
next
  case (Cons l ls)
  from ensure_graph [OF Cons.prems, of l]
  have 1: "set (if l \<notin> set (index s) then setitem s l 0 else s) = (\<lambda>k. (k, int (count_list xs k))) ` (insert l A)"
    and 2: "distinct (map fst (if l \<notin> set (index s) then setitem s l 0 else s))" by blast+
  have 3: "set xs \<subseteq> insert l A" using Cons.prems(3) by blast
  from Cons.IH [OF 1 2 3] show ?case by simp
qed

lemma label_distributions_eq:
  "label_distributions oc nc = (dist_of oc, dist_of nc)"
proof -
  have h: "\<And>xs. sort_index (fold (\<lambda>l s. if l \<notin> set (index s) then setitem s l 0 else s) [0, 1, 2]
           (sort_index (value_counts xs))) = dist_of xs"
  proof -
    fix xs :: "int list"
    let ?s0 = "sort_index (value_counts xs)"
    have a: "set ?s0 = (\<lambda>k. (k, int (count_list xs k))) ` set xs"
      by (simp add: sort_index_def value_counts_set)
    have b: "distinct (map fst ?s0)"
      using value_counts_distinct [of xs] by (simp add: sort_index_def distinct_map)
    from fold_ensure_graph [OF a b subset_refl, of "[0, 1, 2]"]
    show "sort_index (fold (\<lambda>l s. if l \<notin> set (index s) then setitem s l 0 else s) [0, 1, 2] ?s0) = dist_of xs"
      unfolding dist_of_def keys_of_def
      by (intro sort_index_graph) (auto simp: Un_commute)
  qed
  show ?thesis
    by (simp only: label_distributions_def Let_def fold_ensure_pair prod.case h)
qed

lemma keys_of_set: "set (keys_of xs) = set xs \<union> {0, 1, 2}"
  unfolding keys_of_def by (rule sorted_list_of_set.set_sorted_key_list_of_set) simp

lemma keys_of_sorted: "sorted (keys_of xs)"
  unfolding keys_of_def by (rule sorted_list_of_set.sorted_sorted_key_list_of_set)

lemma keys_of_distinct: "distinct (keys_of xs)"
  unfolding keys_of_def by (rule sorted_list_of_set.distinct_sorted_key_list_of_set)

lemma dist_of_index: "index (dist_of xs) = keys_of xs"
  by (simp add: dist_of_def index_def comp_def)

lemma dist_of_set: "set (dist_of xs) = (\<lambda>k. (k, int (count_list xs k))) ` (set xs \<union> {0, 1, 2})"
  by (simp only: dist_of_def set_map keys_of_set)

lemma dist_of_sum: "sum_list (values_of (dist_of xs)) = int (length xs)"
proof -
  let ?A = "set xs \<union> {0, 1, 2}"
  have "sum_list (values_of (dist_of xs)) = (\<Sum>k\<in>?A. int (count_list xs k))"
    by (simp add: dist_of_def values_of_def comp_def sum_list_distinct_conv_sum_set keys_of_distinct keys_of_set
        del: Un_insert_right)
  also have "\<dots> = int (sum (count_list xs) ?A)" by simp
  also have "sum (count_list xs) ?A = length xs" by (rule sum_count_set) auto
  finally show ?thesis .
qed

lemma dist_of_map_of: "l \<in> set xs \<union> {0, 1, 2} \<Longrightarrow> map_of (dist_of xs) l = Some (int (count_list xs l))"
proof (rule map_of_is_SomeI)
  show "distinct (map fst (dist_of xs))"
    using keys_of_distinct [of xs] by (simp add: dist_of_def comp_def)
  assume "l \<in> set xs \<union> {0, 1, 2}"
  then show "(l, int (count_list xs l)) \<in> set (dist_of xs)"
    unfolding dist_of_set by (rule imageI)
qed

lemma dist_of_length: "3 \<le> length (dist_of xs)"
proof -
  have "card {0, 1, 2 :: int} \<le> card (set xs \<union> {0, 1, 2})"
    by (rule card_mono) auto
  moreover have "length (dist_of xs) = card (set (keys_of xs))"
    by (simp add: dist_of_def distinct_card keys_of_distinct)
  ultimately show ?thesis by (simp only: keys_of_set) simp
qed

lemma keys_of_domain: "set xs \<subseteq> {0, 1, 2} \<Longrightarrow> keys_of xs = [0, 1, 2]"
proof -
  assume "set xs \<subseteq> {0, 1, 2}"
  then have "set xs \<union> {0, 1, 2} = {0, 1, 2}" by blast
  then show ?thesis by (simp add: keys_of_def)
qed

lemma dist_of_domain:
  "set xs \<subseteq> {0, 1, 2} \<Longrightarrow>
   dist_of xs = [(0, int (count_list xs 0)), (1, int (count_list xs 1)), (2, int (count_list xs 2))]"
  by (simp add: dist_of_def keys_of_domain)

lemma detect_label_drift_eq:
  assumes "sentiment old_data = Some oc" "sentiment new_data = Some nc"
  shows "detect_label_drift L self old_data new_data =
     (case chisquare L (values_of (dist_of nc)) (values_of (dist_of oc)) of
        Inl e \<Rightarrow> (Inl e, self)
      | Inr (chi2, p) \<Rightarrow>
          (Inr (float_lt p (threshold self)),
           self\<lparr>drift_metrics := (drift_metrics self)\<lparr>label_drift := Some
             \<lparr>chi2_statistic = chi2, chi2_p_value = p,
              chi2_drift_detected = float_lt p (threshold self),
              old_distribution = dist_of oc, new_distribution = dist_of nc\<rparr>\<rparr>\<rparr>))"
  using assms
  by (simp add: detect_label_drift_def get_sentiment_def label_distributions_eq to_dict_def Let_def
      split: sum.splits prod.splits)

subsection \<open>What the tests do to the detector\<close>

lemma detect_label_drift_Inl:
  "detect_label_drift L self od nd = (Inl e, s1) \<Longrightarrow> s1 = self"
  by (auto simp: detect_label_drift_def Let_def split: sum.splits prod.splits)

lemma detect_label_drift_Inr:
  assumes "detect_label_drift L self od nd = (Inr b, s1)"
  shows "\<exists>res. chi2_drift_detected res = b \<and> b = float_lt (chi2_p_value res) (threshold self) \<and>
        s1 = self\<lparr>drift_metrics := (drift_metrics self)\<lparr>label_drift := Some res\<rparr>\<rparr>"
proof -
  from assms obtain chi2 pv d1 d2 where
    "b = float_lt pv (threshold self)"
    "s1 = self\<lparr>drift_metrics := (drift_metrics self)\<lparr>label_drift := Some
             \<lparr>chi2_statistic = chi2, chi2_p_value = pv, chi2_drift_detected = float_lt pv (threshold self),
              old_distribution = d1, new_distribution = d2\<rparr>\<rparr>\<rparr>"
    by (auto simp: detect_label_drift_def Let_def split: sum.splits prod.splits)
  then show ?thesis
    by (intro exI [where x = "\<lparr>chi2_statistic = chi2, chi2_p_value = pv,
          chi2_drift_detected = float_lt pv (threshold self),
          old_distribution = d1, new_distribution = d2\<rparr>"]) simp
qed

lemma detect_text_length_drift_Inl:
  "detect_text_length_drift L self od nd = (Inl e, s1) \<Longrightarrow> s1 = self"
  by (auto simp: detect_text_length_drift_def Let_def split: sum.splits prod.splits)

lemma detect_text_length_drift_Inr:
  assumes "detect_text_length_drift L self od nd = (Inr b, s1)"
  shows "\<exists>res. ks_drift_detected res = b \<and> b = float_lt (ks_p_value res) (threshold self) \<and>
        s1 = self\<lparr>drift_metrics := (drift_metrics self)\<lparr>text_length_drift := Some res\<rparr>\<rparr>"
proof -
  from assms obtain ks pv m1 m2 where
    "b = float_lt pv (threshold self)"
    "s1 = self\<lparr>drift_metrics := (drift_metrics self)\<lparr>text_length_drift := Some
             \<lparr>ks_statistic = ks, ks_p_value = pv, ks_drift_detected = float_lt pv (threshold self),
              old_mean_length = m1, new_mean_length = m2\<rparr>\<rparr>\<rparr>"
    by (auto simp: detect_text_length_drift_def Let_def split: sum.splits prod.splits)
  then show ?thesis
    by (intro exI [where x = "\<lparr>ks_statistic = ks, ks_p_value = pv,
          ks_drift_detected = float_lt pv (threshold self),
          old_mean_length = m1, new_mean_length = m2\<rparr>"]) simp
qed

lemma check_drift_InrE:
  assumes "check_drift L fs now self p q = (Inr b, self')"
  obtains old_data new_data ld td s1 s2 where
    "read_csv fs p = Inr old_data" "read_csv fs q = Inr new_data"
    "detect_label_drift L self old_data new_data = (Inr ld, s1)"
    "detect_text_length_drift L s1 old_data new_data = (Inr td, s2)"
    "b = (ld \<or> td)"
    "self' = s2\<lparr>drift_detected := ld \<or> td,
                 drift_metrics := (drift_metrics s2)\<lparr>overall_drift := Some (ld \<or> td),
                                                       timestamp := Some now\<rparr>\<rparr>"
proof -
  from assms obtain old_data where r1: "read_csv fs p = Inr old_data"
    by (cases "read_csv fs p") (simp_all add: check_drift_def)
  from assms r1 obtain new_data where r2: "read_csv fs q = Inr new_data"
    by (cases "read_csv fs q") (simp_all add: check_drift_def)
  obtain x s1 where l: "detect_label_drift L self old_data new_data = (x, s1)" by force
  from assms r1 r2 l obtain ld where x: "x = Inr ld"
    by (cases x) (simp_all add: check_drift_def)
  obtain y s2 where t: "detect_text_length_drift L s1 old_data new_data = (y, s2)" by force
  from assms r1 r2 l x t obtain td where y: "y = Inr td"
    by (cases y) (simp_all add: check_drift_def)
  from assms r1 r2 l x t y have "b = (ld \<or> td)"
    "self' = s2\<lparr>drift_detected := ld \<or> td,
                 drift_metrics := (drift_metrics s2)\<lparr>overall_drift := Some (ld \<or> td),
                                                       timestamp := Some now\<rparr>\<rparr>"
    by (auto simp: check_drift_def Let_def)
  with r1 r2 l t x y that show thesis by blast
qed

subsection \<open>The modelled routines\<close>

lemma nonneg_or_inf_add: "nonneg_or_inf a \<Longrightarrow> nonneg_or_inf b \<Longrightarrow> nonneg_or_inf (float_add a b)"
  by (cases a; cases b) (simp_all add: nonneg_or_inf_def)

lemma nonneg_or_inf_foldl:
  "nonneg_or_inf a \<Longrightarrow> \<forall>t\<in>set ts. nonneg_or_inf t \<Longrightarrow> nonneg_or_inf (foldl float_add a ts)"
  by (induction ts arbitrary: a) (simp_all add: nonneg_or_inf_add)

lemma nonneg_or_inf_term:
  "0 \<le> ex \<Longrightarrow> obs \<noteq> 0 \<or> ex \<noteq> 0 \<Longrightarrow> nonneg_or_inf (pearson_term obs ex)"
  by (auto simp: pearson_term_def nonneg_or_inf_def)

lemma chi2_sf_range:
  assumes "nonneg_or_inf a" "df \<noteq> 0"
  shows "\<exists>p. chi2_sf Q df a = Fin p \<and> 0 \<le> p \<and> p \<le> 1"
proof (cases a)
  case (Fin x)
  with assms(1) have "0 \<le> x" by (simp add: nonneg_or_inf_def)
  then have "exp (- x / 2) \<le> 1" by simp
  moreover have "0 \<le> Rep_prob (Q df x) \<and> Rep_prob (Q df x) \<le> 1"
    using Rep_prob [of "Q df x"] by simp
  ultimately show ?thesis using Fin assms(2) by simp
qed (use assms in \<open>simp_all add: nonneg_or_inf_def\<close>)

lemma float_add_NaN_right: "float_add a NaN = NaN"
  by (cases a) simp_all

lemma foldl_from_NaN: "foldl float_add NaN ts = NaN"
  by (induction ts) simp_all

lemma foldl_with_NaN: "NaN \<in> set ts \<Longrightarrow> foldl float_add a ts = NaN"
  by (induction ts arbitrary: a) (auto simp: float_add_NaN_right foldl_from_NaN)

lemma scipy_chisquare_p:
  assumes r: "scipy_chisquare Q obs ex = Inr (stat, p)"
    and nn: "\<forall>e\<in>set ex. 0 \<le> e" and len: "2 \<le> length ex"
  shows "if (0, 0) \<in> set (zip obs ex) then stat = NaN \<and> p = NaN
         else (\<exists>x. p = Fin x \<and> 0 \<le> x \<and> x \<le> 1)"
proof -
  let ?ts = "map2 pearson_term obs ex"
  from r have l: "length obs = length ex" and st: "stat = float_sum ?ts"
    and p: "p = chi2_sf Q (length ?ts - 1) stat"
    by (auto simp: scipy_chisquare_def Let_def split: if_splits)
  from l len have df: "length ?ts - 1 \<noteq> 0" by simp
  show ?thesis
  proof (cases "(0, 0) \<in> set (zip obs ex)")
    case True
    then have "pearson_term 0 0 \<in> set ?ts" by force
    then have "NaN \<in> set ?ts" by (simp add: pearson_term_def)
    then have "stat = NaN" unfolding st float_sum_def by (rule foldl_with_NaN)
    with p True show ?thesis by simp
  next
    case False
    have "\<forall>t\<in>set ?ts. nonneg_or_inf t"
    proof
      fix t assume "t \<in> set ?ts"
      then obtain o' e where oe: "(o', e) \<in> set (zip obs ex)" "t = pearson_term o' e" by auto
      from oe(1) have "e \<in> set ex" by (rule set_zip_rightD)
      with nn have "0 \<le> e" by blast
      moreover from oe(1) False have "o' \<noteq> 0 \<or> e \<noteq> 0" by auto
      ultimately show "nonneg_or_inf t" unfolding oe(2) by (rule nonneg_or_inf_term)
    qed
    moreover have "nonneg_or_inf (Fin 0)" by (simp add: nonneg_or_inf_def)
    ultimately have "nonneg_or_inf stat"
      unfolding st float_sum_def by (intro nonneg_or_inf_foldl)
    from chi2_sf_range [OF this df, of Q] p False show ?thesis by simp
  qed
qed

lemma dist_of_nonneg: "\<forall>e\<in>set (values_of (dist_of xs)). 0 \<le> e"
  by (auto simp: values_of_def dist_of_def)

lemma scipy_ks_p:
  assumes "scipy_ks_2samp K xs ys = Inr (stat, p)"
  shows "if xs = [] \<or> ys = [] \<or> None \<in> set xs \<or> None \<in> set ys then stat = NaN \<and> p = NaN
         else (\<exists>x. p = Fin x \<and> 0 \<le> x \<and> x \<le> 1)"
  using assms by (auto simp: scipy_ks_2samp_def Let_def clip01_def split: if_splits)

lemma str_len_Inr:
  assumes "str_len col = Inr ls"
  shows "ls = map (map_option (\<lambda>s. int (length s))) col" "ls = [] \<longleftrightarrow> col = []"
    "None \<in> set ls \<longleftrightarrow> None \<in> set col"
  using assms by (auto simp: str_len_def split: if_splits)

lemma sums_disagree_iff:
  assumes "0 \<le> a" "0 \<le> b"
  shows "\<not> sums_disagree a b \<longleftrightarrow> 2 ^ 26 * \<bar>a - b\<bar> \<le> min a b"
proof (cases "min a b = 0")
  case True
  then show ?thesis using assms by (auto simp: sums_disagree_def Let_def)
next
  case False
  with assms have m: "0 < min a b" by linarith
  then have r: "0 < real_of_int (min a b)" by simp
  have "\<not> sums_disagree a b \<longleftrightarrow> \<bar>real_of_int (a - b)\<bar> / real_of_int (min a b) \<le> 1 / 2 ^ 26"
    using False by (simp add: sums_disagree_def Let_def not_less)
  also have "\<dots> \<longleftrightarrow> 2 ^ 26 * \<bar>real_of_int (a - b)\<bar> \<le> real_of_int (min a b)"
    using r by (simp add: field_simps)
  also have "\<dots> \<longleftrightarrow> real_of_int (2 ^ 26 * \<bar>a - b\<bar>) \<le> real_of_int (min a b)"
    by simp
  also have "\<dots> \<longleftrightarrow> 2 ^ 26 * \<bar>a - b\<bar> \<le> min a b"
    by (rule of_int_le_iff)
  finally show ?thesis .
qed

lemma scipy_chisquare_cases:
  "(\<exists>msg. scipy_chisquare Q obs ex = Inl (ValueError msg)) \<or>
   (\<not> sums_disagree (sum_list obs) (sum_list ex) \<and> (\<exists>r. scipy_chisquare Q obs ex = Inr r))"
  by (simp add: scipy_chisquare_def Let_def)

lemma pearson_equal: "\<forall>c\<in>set v. c \<noteq> 0 \<Longrightarrow> map2 pearson_term v v = map (\<lambda>_. Fin 0) v"
  by (induction v) (simp_all add: pearson_term_def)

lemma float_sum_zeros: "foldl float_add (Fin 0) (map (\<lambda>_. Fin 0) v) = Fin 0"
  by (induction v) simp_all

lemma sums_agree_refl: "\<not> sums_disagree s s"
  by (simp add: sums_disagree_def)

lemma scipy_chisquare_equal:
  assumes "\<forall>c\<in>set v. c \<noteq> 0" "2 \<le> length v"
  shows "scipy_chisquare Q v v = Inr (Fin 0, Fin 1)"
proof -
  from assms(2) have "length v - 1 \<noteq> 0" by simp
  then show ?thesis
    by (simp add: scipy_chisquare_def sums_agree_refl Let_def pearson_equal [OF assms(1)]
        float_sum_def float_sum_zeros)
qed

subsection \<open>The example tables, evaluated\<close>

lemmas eval_defs =
  detect_label_drift_def detect_text_length_drift_def check_drift_def read_csv_def
  get_sentiment_def get_review_def label_distributions_def value_counts_def sort_index_def
  ensure_label_def setitem_def index_def values_of_def to_dict_def str_len_def mean_def present_def
  scipy_def scipy_chisquare_def sums_disagree_def pearson_term_def float_sum_def
  scipy_ks_2samp_def ks_distance_def ecdf_def Let_def
  fresh_def default_threshold_def empty_metrics_def scipy_ref_def

lemma label_full:
  "detect_label_drift scipy_ref fresh reviews_full reviews_full =
     (Inr False, fresh\<lparr>drift_metrics := empty_metrics\<lparr>label_drift := Some
        \<lparr>chi2_statistic = Fin 0, chi2_p_value = Fin 1, chi2_drift_detected = False,
         old_distribution = [(0, 1), (1, 1), (2, 1)], new_distribution = [(0, 1), (1, 1), (2, 1)]\<rparr>\<rparr>\<rparr>)"
  by (simp add: eval_defs reviews_full_def)

lemma text_full:
  "detect_text_length_drift scipy_ref fresh reviews_full reviews_full =
     (Inr False, fresh\<lparr>drift_metrics := empty_metrics\<lparr>text_length_drift := Some
        \<lparr>ks_statistic = Fin 0, ks_p_value = Fin 1, ks_drift_detected = False,
         old_mean_length = Fin 4, new_mean_length = Fin 4\<rparr>\<rparr>\<rparr>)"
  by (simp add: eval_defs reviews_full_def)

lemma check_full:
  "check_drift scipy_ref example_fs now fresh ''full.csv'' ''full.csv'' =
     (Inr False, \<lparr>threshold = Fin (5 / 100), drift_detected = False, drift_metrics =
        \<lparr>label_drift = Some
          \<lparr>chi2_statistic = Fin 0, chi2_p_value = Fin 1, chi2_drift_detected = False,
           old_distribution = [(0, 1), (1, 1), (2, 1)], new_distribution = [(0, 1), (1, 1), (2, 1)]\<rparr>,
         text_length_drift = Some
          \<lparr>ks_statistic = Fin 0, ks_p_value = Fin 1, ks_drift_detected = False,
           old_mean_length = Fin 4, new_mean_length = Fin 4\<rparr>,
         overall_drift = Some False, timestamp = Some now\<rparr>\<rparr>)"
  by (simp add: eval_defs reviews_full_def example_fs_def)

lemma label_two:
  "detect_label_drift scipy_ref fresh reviews_two_labels reviews_two_labels =
     (Inr False, fresh\<lparr>drift_metrics := empty_metrics\<lparr>label_drift := Some
        \<lparr>chi2_statistic = NaN, chi2_p_value = NaN, chi2_drift_detected = False,
         old_distribution = [(0, 1), (1, 1), (2, 0)], new_distribution = [(0, 1), (1, 1), (2, 0)]\<rparr>\<rparr>\<rparr>)"
  by (simp add: eval_defs reviews_two_labels_def)

lemma label_no_positive:
  "detect_label_drift scipy_ref fresh reviews_no_positive reviews_shifted =
     (Inr True, fresh\<lparr>drift_metrics := empty_metrics\<lparr>label_drift := Some
        \<lparr>chi2_statistic = PosInf, chi2_p_value = Fin 0, chi2_drift_detected = True,
         old_distribution = [(0, 2), (1, 2), (2, 0)], new_distribution = [(0, 1), (1, 1), (2, 2)]\<rparr>\<rparr>\<rparr>)"
  by (simp add: eval_defs reviews_no_positive_def reviews_shifted_def)

lemma check_no_text:
  "check_drift scipy_ref example_fs now fresh ''no_text.csv'' ''no_text.csv'' =
     (Inl (KeyError ''review''), fresh\<lparr>drift_metrics := empty_metrics\<lparr>label_drift := Some
        \<lparr>chi2_statistic = Fin 0, chi2_p_value = Fin 1, chi2_drift_detected = False,
         old_distribution = [(0, 1), (1, 1), (2, 1)], new_distribution = [(0, 1), (1, 1), (2, 1)]\<rparr>\<rparr>\<rparr>)"
  by (simp add: eval_defs reviews_no_text_def example_fs_def)

lemma label_extra:
  "detect_label_drift scipy_ref fresh reviews_extra reviews_extra =
     (Inr False, fresh\<lparr>drift_metrics := empty_metrics\<lparr>label_drift := Some
        \<lparr>chi2_statistic = Fin 0, chi2_p_value = Fin 1, chi2_drift_detected = False,
         old_distribution = [(0, 1), (1, 1), (2, 1), (5, 1)],
         new_distribution = [(0, 1), (1, 1), (2, 1), (5, 1)]\<rparr>\<rparr>\<rparr>)"
  by (simp add: eval_defs reviews_extra_def)

lemma count_list_replicate: "count_list (replicate n x) y = (if x = y then n else 0)"
  by (induction n) auto

lemma dist_of_large:
  assumes "0 < n"
  shows "dist_of (replicate n 0 @ [1, 2]) = [(0, int n), (1, 1), (2, 1)]"
proof -
  have "set (replicate n (0::int) @ [1, 2]) \<subseteq> {0, 1, 2}" by auto
  from dist_of_domain [OF this] show ?thesis
    by (simp add: count_list_replicate)
qed

lemma exp_small: "\<not> exp (- (1 / 160000000)) * 20 < (1 :: real)"
proof -
  have "1 + (- (1 / 160000000)) \<le> exp (- (1 / 160000000 :: real))"
    by (rule exp_ge_add_one_self)
  then show ?thesis by simp
qed

lemma chisquare_large:
  "scipy_chisquare Q [80000001, 1, 1] [80000000, 1, 1]
     = Inr (Fin (1 / 80000000), Fin (exp (- (1 / 160000000))))"
  by (simp add: scipy_chisquare_def sums_disagree_def pearson_term_def float_sum_def)

section \<open>The claims\<close>

subsection \<open>The aggregation rule\<close>

text \<open>
  Claim C1. Whenever \<open>check_drift\<close> returns, the boolean it returns is the disjunction of
  the verdict of the categorical test and the verdict of the text-length test, whatever the
  two record sets, the threshold and the two verdicts are; the same boolean is stored as
  \<open>overall_drift\<close> and as the attribute \<open>drift_detected\<close>, and the two verdicts are the
  \<open>drift_detected\<close> fields recorded for the tests. The statement holds for every behaviour
  of the statistics library.
\<close>

theorem check_drift_overall_or:
  assumes "check_drift L fs now self p q = (Inr b, self')"
  shows "\<exists>old_data new_data ld td s1 s2 lres tres.
           read_csv fs p = Inr old_data \<and> read_csv fs q = Inr new_data \<and>
           detect_label_drift L self old_data new_data = (Inr ld, s1) \<and>
           detect_text_length_drift L s1 old_data new_data = (Inr td, s2) \<and>
           b = (ld \<or> td) \<and>
           drift_detected self' = (ld \<or> td) \<and>
           overall_drift (drift_metrics self') = Some (ld \<or> td) \<and>
           label_drift (drift_metrics self') = Some lres \<and> chi2_drift_detected lres = ld \<and>
           text_length_drift (drift_metrics self') = Some tres \<and> ks_drift_detected tres = td"
proof -
  from assms obtain old_data new_data ld td s1 s2 where
    rd: "read_csv fs p = Inr old_data" "read_csv fs q = Inr new_data" and
    l: "detect_label_drift L self old_data new_data = (Inr ld, s1)" and
    t: "detect_text_length_drift L s1 old_data new_data = (Inr td, s2)" and
    b: "b = (ld \<or> td)" and
    s: "self' = s2\<lparr>drift_detected := ld \<or> td,
                 drift_metrics := (drift_metrics s2)\<lparr>overall_drift := Some (ld \<or> td),
                                                       timestamp := Some now\<rparr>\<rparr>"
    by (rule check_drift_InrE)
  from detect_label_drift_Inr [OF l] obtain lres where
    lres: "chi2_drift_detected lres = ld"
      "s1 = self\<lparr>drift_metrics := (drift_metrics self)\<lparr>label_drift := Some lres\<rparr>\<rparr>" by auto
  from detect_text_length_drift_Inr [OF t] obtain tres where
    tres: "ks_drift_detected tres = td"
      "s2 = s1\<lparr>drift_metrics := (drift_metrics s1)\<lparr>text_length_drift := Some tres\<rparr>\<rparr>" by auto
  have "label_drift (drift_metrics self') = Some lres" "text_length_drift (drift_metrics self') = Some tres"
    "drift_detected self' = (ld \<or> td)" "overall_drift (drift_metrics self') = Some (ld \<or> td)"
    by (simp_all add: s lres tres)
  with rd l t b lres(1) tres(1) show ?thesis by blast
qed

text \<open>Claim C1 at two equal tables: both tests see no drift, and so does the check.\<close>

theorem check_drift_overall_or_witness:
  "check_drift scipy_ref example_fs ''2024-05-01T12:00:00'' fresh ''full.csv'' ''full.csv''
     = (Inr False, snd (check_drift scipy_ref example_fs ''2024-05-01T12:00:00'' fresh ''full.csv'' ''full.csv''))
   \<and> overall_drift (drift_metrics
        (snd (check_drift scipy_ref example_fs ''2024-05-01T12:00:00'' fresh ''full.csv'' ''full.csv'')))
       = Some False"
proof -
  let ?c = "check_drift scipy_ref example_fs ''2024-05-01T12:00:00'' fresh ''full.csv'' ''full.csv''"
  have h: "?c = (Inr False, snd ?c)" by (simp add: check_full)
  from check_drift_overall_or [OF h] obtain ld td where
    "False = (ld \<or> td)" "overall_drift (drift_metrics (snd ?c)) = Some (ld \<or> td)" by blast
  with h show ?thesis by simp
qed

subsection \<open>P-values and verdicts\<close>

lemma text_missing:
  "detect_text_length_drift scipy_ref fresh reviews_missing_text reviews_missing_text =
     (Inr False, fresh\<lparr>drift_metrics := empty_metrics\<lparr>text_length_drift := Some
        \<lparr>ks_statistic = NaN, ks_p_value = NaN, ks_drift_detected = False,
         old_mean_length = Fin (9 / 2), new_mean_length = Fin (9 / 2)\<rparr>\<rparr>\<rparr>)"
  by (simp add: eval_defs reviews_missing_text_def)

text \<open>
  Claim C2 as stated fails, for either test. Two non-empty tables in which the label 2
  does not occur give the categorical test an expected and an observed count 0 at that
  label; the Pearson term is 0 / 0, and the recorded statistic and p-value are NaN, which
  is not in the interval from 0 to 1. Two non-empty tables with one missing text give the
  text-length test a sample with a missing length, and the recorded statistic and p-value
  are NaN again.
\<close>

theorem p_value_nan_counterexample:
  "detect_label_drift scipy_ref fresh reviews_two_labels reviews_two_labels =
     (Inr False, fresh\<lparr>drift_metrics := empty_metrics\<lparr>label_drift := Some
        \<lparr>chi2_statistic = NaN, chi2_p_value = NaN, chi2_drift_detected = False,
         old_distribution = [(0, 1), (1, 1), (2, 0)], new_distribution = [(0, 1), (1, 1), (2, 0)]\<rparr>\<rparr>\<rparr>)
   \<and> sentiment reviews_two_labels = Some [0, 1]
   \<and> review reviews_two_labels = Some [Some ''bad'', Some ''okay'']
   \<and> detect_text_length_drift scipy_ref fresh reviews_missing_text reviews_missing_text =
     (Inr False, fresh\<lparr>drift_metrics := empty_metrics\<lparr>text_length_drift := Some
        \<lparr>ks_statistic = NaN, ks_p_value = NaN, ks_drift_detected = False,
         old_mean_length = Fin (9 / 2), new_mean_length = Fin (9 / 2)\<rparr>\<rparr>\<rparr>)
   \<and> sentiment reviews_missing_text = Some [0, 1, 2]
   \<and> review reviews_missing_text = Some [Some ''good'', None, Some ''great'']"
  by (simp add: label_two text_missing) (simp add: reviews_two_labels_def reviews_missing_text_def)

text \<open>
  Claim C2, as the code has it. Whenever one of the two tests returns, the
  \<open>drift_detected\<close> it records is true exactly when the recorded p-value is below the
  threshold, and the returned boolean is the recorded one (for every behaviour of the
  library). With the modelled SciPy routines, the p-value of the categorical test lies
  between 0 and 1 unless some cell has the count 0 in both zero-filled distributions, and
  then it is NaN; when all labels are 0, 1 or 2, that is when one of the three labels occurs
  in neither set. The p-value of the text-length test lies between 0 and 1 unless a record
  set is empty or a text is missing, and then it is NaN.
\<close>

theorem p_value_and_flag:
  "(detect_label_drift L self old_data new_data = (Inr b, self') \<longrightarrow>
      (\<exists>r. label_drift (drift_metrics self') = Some r \<and> chi2_drift_detected r = b \<and>
           b = float_lt (chi2_p_value r) (threshold self)))
   \<and> (detect_text_length_drift L self old_data new_data = (Inr b', self'') \<longrightarrow>
      (\<exists>r. text_length_drift (drift_metrics self'') = Some r \<and> ks_drift_detected r = b' \<and>
           b' = float_lt (ks_p_value r) (threshold self)))
   \<and> (L = scipy Q K \<and> detect_label_drift L self old_data new_data = (Inr b, self') \<and>
      sentiment old_data = Some oc \<and> sentiment new_data = Some nc \<longrightarrow>
      (\<exists>r. label_drift (drift_metrics self') = Some r \<and>
         (if (0, 0) \<in> set (zip (values_of (snd (label_distributions oc nc)))
                               (values_of (fst (label_distributions oc nc))))
          then chi2_p_value r = NaN
          else (\<exists>p. chi2_p_value r = Fin p \<and> 0 \<le> p \<and> p \<le> 1))))
   \<and> (set oc \<union> set nc \<subseteq> {0, 1, 2} \<longrightarrow>
        ((0, 0) \<in> set (zip (values_of (snd (label_distributions oc nc)))
                            (values_of (fst (label_distributions oc nc))))
         \<longleftrightarrow> \<not> {0, 1, 2} \<subseteq> set oc \<union> set nc))
   \<and> (L = scipy Q K \<and> detect_text_length_drift L self old_data new_data = (Inr b', self'') \<and>
      review old_data = Some otxt \<and> review new_data = Some ntxt \<longrightarrow>
      (\<exists>r. text_length_drift (drift_metrics self'') = Some r \<and>
         (if otxt = [] \<or> ntxt = [] \<or> None \<in> set otxt \<or> None \<in> set ntxt
          then ks_p_value r = NaN
          else (\<exists>p. ks_p_value r = Fin p \<and> 0 \<le> p \<and> p \<le> 1))))"
proof (intro conjI impI)
  assume "detect_label_drift L self old_data new_data = (Inr b, self')"
  from detect_label_drift_Inr [OF this]
  show "\<exists>r. label_drift (drift_metrics self') = Some r \<and> chi2_drift_detected r = b \<and>
           b = float_lt (chi2_p_value r) (threshold self)"
    by auto
next
  assume "detect_text_length_drift L self old_data new_data = (Inr b', self'')"
  from detect_text_length_drift_Inr [OF this]
  show "\<exists>r. text_length_drift (drift_metrics self'') = Some r \<and> ks_drift_detected r = b' \<and>
           b' = float_lt (ks_p_value r) (threshold self)"
    by auto
next
  assume a: "L = scipy Q K \<and> detect_label_drift L self old_data new_data = (Inr b, self') \<and>
      sentiment old_data = Some oc \<and> sentiment new_data = Some nc"
  then obtain stat p where
    c: "scipy_chisquare Q (values_of (dist_of nc)) (values_of (dist_of oc)) = Inr (stat, p)"
    and r: "label_drift (drift_metrics self') = Some
             \<lparr>chi2_statistic = stat, chi2_p_value = p,
              chi2_drift_detected = float_lt p (threshold self),
              old_distribution = dist_of oc, new_distribution = dist_of nc\<rparr>"
    by (auto simp: detect_label_drift_eq scipy_def split: sum.splits prod.splits)
  have "2 \<le> length (values_of (dist_of oc))"
    using dist_of_length [of oc] by (simp add: values_of_def)
  from scipy_chisquare_p [OF c dist_of_nonneg this] r
  show "\<exists>r. label_drift (drift_metrics self') = Some r \<and>
         (if (0, 0) \<in> set (zip (values_of (snd (label_distributions oc nc)))
                               (values_of (fst (label_distributions oc nc))))
          then chi2_p_value r = NaN
          else (\<exists>p. chi2_p_value r = Fin p \<and> 0 \<le> p \<and> p \<le> 1))"
    by (simp add: label_distributions_eq split: if_splits)
next
  assume "set oc \<union> set nc \<subseteq> {0, 1, 2}"
  then have so: "set oc \<subseteq> {0, 1, 2}" and sn: "set nc \<subseteq> {0, 1, 2}" by blast+
  show "(0, 0) \<in> set (zip (values_of (snd (label_distributions oc nc)))
                            (values_of (fst (label_distributions oc nc))))
         \<longleftrightarrow> \<not> {0, 1, 2} \<subseteq> set oc \<union> set nc"
    by (simp add: label_distributions_eq dist_of_domain [OF so] dist_of_domain [OF sn]
        values_of_def count_list_0_iff) blast
next
  assume a: "L = scipy Q K \<and> detect_text_length_drift L self old_data new_data = (Inr b', self'') \<and>
      review old_data = Some otxt \<and> review new_data = Some ntxt"
  then obtain ol nl stat p where
    ol: "str_len otxt = Inr ol" and nl: "str_len ntxt = Inr nl" and
    c: "scipy_ks_2samp K ol nl = Inr (stat, p)"
    and r: "text_length_drift (drift_metrics self'') = Some
             \<lparr>ks_statistic = stat, ks_p_value = p,
              ks_drift_detected = float_lt p (threshold self),
              old_mean_length = mean ol, new_mean_length = mean nl\<rparr>"
    by (auto simp: detect_text_length_drift_def get_review_def scipy_def Let_def
        split: sum.splits prod.splits)
  from scipy_ks_p [OF c] r str_len_Inr(2,3) [OF ol] str_len_Inr(2,3) [OF nl]
  show "\<exists>r. text_length_drift (drift_metrics self'') = Some r \<and>
         (if otxt = [] \<or> ntxt = [] \<or> None \<in> set otxt \<or> None \<in> set ntxt
          then ks_p_value r = NaN
          else (\<exists>p. ks_p_value r = Fin p \<and> 0 \<le> p \<and> p \<le> 1))"
    by (simp split: if_splits)
qed

text \<open>Claim C2 at two equal tables with all three labels and no missing text: both p-values are 1.\<close>

theorem p_value_and_flag_witness:
  "detect_label_drift scipy_ref fresh reviews_full reviews_full
     = (Inr False, snd (detect_label_drift scipy_ref fresh reviews_full reviews_full))
   \<and> detect_text_length_drift scipy_ref fresh reviews_full reviews_full
     = (Inr False, snd (detect_text_length_drift scipy_ref fresh reviews_full reviews_full))
   \<and> scipy_ref = scipy some_sf some_ks_prob
   \<and> sentiment reviews_full = Some [0, 1, 2]
   \<and> review reviews_full = Some [Some ''bad'', Some ''okay'', Some ''great'']
   \<and> set [0, 1, 2] \<union> set [0, 1, 2] \<subseteq> {0, 1, 2 :: int}
   \<and> {0, 1, 2 :: int} \<subseteq> set [0, 1, 2] \<union> set [0, 1, 2]
   \<and> (\<exists>r p. label_drift (drift_metrics (snd (detect_label_drift scipy_ref fresh reviews_full reviews_full))) = Some r
          \<and> chi2_p_value r = Fin p \<and> 0 \<le> p \<and> p \<le> 1 \<and> chi2_drift_detected r = False)
   \<and> (\<exists>r p. text_length_drift (drift_metrics (snd (detect_text_length_drift scipy_ref fresh reviews_full reviews_full))) = Some r
          \<and> ks_p_value r = Fin p \<and> 0 \<le> p \<and> p \<le> 1 \<and> ks_drift_detected r = False)"
proof -
  let ?l = "detect_label_drift scipy_ref fresh reviews_full reviews_full"
  let ?t = "detect_text_length_drift scipy_ref fresh reviews_full reviews_full"
  let ?z = "(0, 0) \<in> set (zip (values_of (snd (label_distributions [0, 1, 2] [0, 1, 2])))
                               (values_of (fst (label_distributions [0, 1, 2] [0, 1, 2]))))"
  have l: "?l = (Inr False, snd ?l)" by (simp add: label_full)
  have t: "?t = (Inr False, snd ?t)" by (simp add: text_full)
  have r: "scipy_ref = scipy some_sf some_ks_prob" by (simp add: scipy_ref_def)
  have s: "sentiment reviews_full = Some [0, 1, 2]" by (simp add: reviews_full_def)
  have v: "review reviews_full = Some [Some ''bad'', Some ''okay'', Some ''great'']"
    by (simp add: reviews_full_def)
  have u: "set [0, 1, 2] \<union> set [0, 1, 2] \<subseteq> {0, 1, 2 :: int}"
    "{0, 1, 2 :: int} \<subseteq> set [0, 1, 2] \<union> set [0, 1, 2]" by auto
  have n: "\<not> ([Some ''bad'', Some ''okay'', Some ''great''] = [] \<or>
      [Some ''bad'', Some ''okay'', Some ''great''] = [] \<or>
      None \<in> set [Some ''bad'', Some ''okay'', Some ''great''] \<or>
      None \<in> set [Some ''bad'', Some ''okay'', Some ''great''])" by simp
  note th = p_value_and_flag [where L = scipy_ref and self = fresh and old_data = reviews_full
      and new_data = reviews_full and b = False and self' = "snd ?l" and b' = False
      and self'' = "snd ?t" and Q = some_sf and K = some_ks_prob
      and oc = "[0, 1, 2]" and nc = "[0, 1, 2]"
      and otxt = "[Some ''bad'', Some ''okay'', Some ''great'']"
      and ntxt = "[Some ''bad'', Some ''okay'', Some ''great'']"]
  from th l have 1: "\<exists>r. label_drift (drift_metrics (snd ?l)) = Some r \<and> chi2_drift_detected r = False \<and>
           False = float_lt (chi2_p_value r) (threshold fresh)"
    by (rule conjunct1 [THEN mp])
  from th t have 2: "\<exists>r. text_length_drift (drift_metrics (snd ?t)) = Some r \<and> ks_drift_detected r = False \<and>
           False = float_lt (ks_p_value r) (threshold fresh)"
    by (rule conjunct2 [THEN conjunct1, THEN mp])
  from th u have z: "\<not> ?z"
    using conjunct2 [THEN conjunct2, THEN conjunct2, THEN conjunct1, THEN mp, OF th u(1)] by simp
  from conjunct2 [THEN conjunct2, THEN conjunct1, THEN mp, OF th conjI [OF r conjI [OF l conjI [OF s s]]]] z
  have 3: "\<exists>r p. label_drift (drift_metrics (snd ?l)) = Some r \<and> chi2_p_value r = Fin p \<and> 0 \<le> p \<and> p \<le> 1"
    by auto
  from conjunct2 [THEN conjunct2, THEN conjunct2, THEN conjunct2, THEN mp, OF th conjI [OF r conjI [OF t conjI [OF v v]]]] n
  have 4: "\<exists>r p. text_length_drift (drift_metrics (snd ?t)) = Some r \<and> ks_p_value r = Fin p \<and> 0 \<le> p \<and> p \<le> 1"
    by auto
  from 1 3 have 5: "\<exists>r p. label_drift (drift_metrics (snd ?l)) = Some r
          \<and> chi2_p_value r = Fin p \<and> 0 \<le> p \<and> p \<le> 1 \<and> chi2_drift_detected r = False"
    by auto
  from 2 4 have 6: "\<exists>r p. text_length_drift (drift_metrics (snd ?t)) = Some r
          \<and> ks_p_value r = Fin p \<and> 0 \<le> p \<and> p \<le> 1 \<and> ks_drift_detected r = False"
    by auto
  from l t r s v u 5 6 show ?thesis by (intro conjI)
qed

subsection \<open>A failed check\<close>

text \<open>
  Claim C3 as stated fails. On a fresh detector and a table without the \<open>review\<close>
  column the categorical test succeeds and writes its result, the text-length test raises
  \<open>KeyError\<close>, and the failed check leaves a report with \<open>label_drift\<close> populated and
  \<open>text_length_drift\<close> absent.
\<close>

theorem partial_report_counterexample:
  "check_drift scipy_ref example_fs ''2024-05-01T12:00:00'' fresh ''no_text.csv'' ''no_text.csv'' =
     (Inl (KeyError ''review''), fresh\<lparr>drift_metrics := empty_metrics\<lparr>label_drift := Some
        \<lparr>chi2_statistic = Fin 0, chi2_p_value = Fin 1, chi2_drift_detected = False,
         old_distribution = [(0, 1), (1, 1), (2, 1)], new_distribution = [(0, 1), (1, 1), (2, 1)]\<rparr>\<rparr>\<rparr>)
   \<and> label_drift (drift_metrics fresh) = None
   \<and> text_length_drift (empty_metrics\<lparr>label_drift := Some
        \<lparr>chi2_statistic = Fin 0, chi2_p_value = Fin 1, chi2_drift_detected = False,
         old_distribution = [(0, 1), (1, 1), (2, 1)], new_distribution = [(0, 1), (1, 1), (2, 1)]\<rparr>\<rparr>) = None"
  by (simp add: check_no_text) (simp add: fresh_def empty_metrics_def)

text \<open>
  Claim C3, as the code has it. When a test inside \<open>check_drift\<close> fails, the whole call
  fails with the error of that test. A failure of the categorical test leaves the detector
  as it was. A failure of the text-length test leaves the detector as the categorical test
  left it: the \<open>label_drift\<close> result of the call is recorded and nothing else has changed,
  so \<open>overall_drift\<close> and \<open>timestamp\<close> are not written.
\<close>

theorem failed_check_state:
  assumes "read_csv fs p = Inr old_data" "read_csv fs q = Inr new_data"
  shows "(detect_label_drift L self old_data new_data = (Inl e, s1) \<longrightarrow>
            check_drift L fs now self p q = (Inl e, self))
       \<and> (detect_label_drift L self old_data new_data = (Inr b, s1) \<and>
          detect_text_length_drift L s1 old_data new_data = (Inl e, s2) \<longrightarrow>
            check_drift L fs now self p q = (Inl e, s1) \<and>
            label_drift (drift_metrics s1) \<noteq> None \<and>
            s1 = self\<lparr>drift_metrics := (drift_metrics self)\<lparr>label_drift := label_drift (drift_metrics s1)\<rparr>\<rparr>)"
proof (intro conjI impI)
  assume a: "detect_label_drift L self old_data new_data = (Inl e, s1)"
  then have "s1 = self" by (rule detect_label_drift_Inl)
  with a assms show "check_drift L fs now self p q = (Inl e, self)"
    by (simp add: check_drift_def)
next
  assume a: "detect_label_drift L self old_data new_data = (Inr b, s1) \<and>
          detect_text_length_drift L s1 old_data new_data = (Inl e, s2)"
  then have t: "detect_text_length_drift L s1 old_data new_data = (Inl e, s1)"
    using detect_text_length_drift_Inl by blast
  with a assms show "check_drift L fs now self p q = (Inl e, s1)"
    by (simp add: check_drift_def)
  from a obtain res where "s1 = self\<lparr>drift_metrics := (drift_metrics self)\<lparr>label_drift := Some res\<rparr>\<rparr>"
    using detect_label_drift_Inr by blast
  then show "label_drift (drift_metrics s1) \<noteq> None"
    "s1 = self\<lparr>drift_metrics := (drift_metrics self)\<lparr>label_drift := label_drift (drift_metrics s1)\<rparr>\<rparr>"
    by simp_all
qed

text \<open>Claim C3 at the table without the \<open>review\<close> column.\<close>

theorem failed_check_state_witness:
  "read_csv example_fs ''no_text.csv'' = Inr reviews_no_text
   \<and> fst (detect_label_drift scipy_ref fresh reviews_no_text reviews_no_text) = Inr False
   \<and> fst (detect_text_length_drift scipy_ref
        (snd (detect_label_drift scipy_ref fresh reviews_no_text reviews_no_text))
        reviews_no_text reviews_no_text) = Inl (KeyError ''review'')
   \<and> check_drift scipy_ref example_fs ''2024-05-01T12:00:00'' fresh ''no_text.csv'' ''no_text.csv''
       = (Inl (KeyError ''review''), snd (detect_label_drift scipy_ref fresh reviews_no_text reviews_no_text))
   \<and> label_drift (drift_metrics (snd (detect_label_drift scipy_ref fresh reviews_no_text reviews_no_text))) \<noteq> None"
proof -
  let ?l = "detect_label_drift scipy_ref fresh reviews_no_text reviews_no_text"
  let ?t = "detect_text_length_drift scipy_ref (snd ?l) reviews_no_text reviews_no_text"
  have rd: "read_csv example_fs ''no_text.csv'' = Inr reviews_no_text"
    by (simp add: read_csv_def example_fs_def)
  have l: "?l = (Inr False, snd ?l)"
    by (simp add: eval_defs reviews_no_text_def)
  have t: "?t = (Inl (KeyError ''review''), snd ?t)"
    by (simp add: detect_text_length_drift_def get_review_def reviews_no_text_def)
  from failed_check_state [OF rd rd, of scipy_ref fresh "KeyError ''review''" "snd ?l" _ False "snd ?t"] l t
  have "check_drift scipy_ref example_fs ''2024-05-01T12:00:00'' fresh ''no_text.csv'' ''no_text.csv''
       = (Inl (KeyError ''review''), snd ?l)" "label_drift (drift_metrics (snd ?l)) \<noteq> None"
    by blast+
  with rd l t show ?thesis by (metis fst_conv)
qed

subsection \<open>A zero count in the reference\<close>

text \<open>
  Claim C4 as stated fails. The reference has no record with label 2 and the candidate has
  two: the test raises nothing, records the reference count 0 unchanged, and the statistic
  is infinite.
\<close>

theorem zero_count_counterexample:
  "detect_label_drift scipy_ref fresh reviews_no_positive reviews_shifted =
     (Inr True, fresh\<lparr>drift_metrics := empty_metrics\<lparr>label_drift := Some
        \<lparr>chi2_statistic = PosInf, chi2_p_value = Fin 0, chi2_drift_detected = True,
         old_distribution = [(0, 2), (1, 2), (2, 0)], new_distribution = [(0, 1), (1, 1), (2, 2)]\<rparr>\<rparr>\<rparr>)
   \<and> sentiment reviews_no_positive = Some [0, 0, 1, 1]"
  by (simp add: label_no_positive) (simp add: reviews_no_positive_def)

text \<open>
  Claim C4, as the code has it. When a label of 0, 1, 2 does not occur in the reference,
  \<open>detect_label_drift\<close> keeps the count 0 for it and passes the zero-filled distributions
  unchanged to the chi-square routine: it raises only if the routine raises, substitutes
  nothing, and records the distributions with the count 0 when the routine returns.
\<close>

theorem zero_count_passed_on:
  assumes "sentiment old_data = Some oc" "sentiment new_data = Some nc"
    and "l \<in> {0, 1, 2}" "l \<notin> set oc"
  shows "(l, 0) \<in> set (fst (label_distributions oc nc)) \<and>
         detect_label_drift L self old_data new_data =
           (case chisquare L (values_of (snd (label_distributions oc nc)))
                             (values_of (fst (label_distributions oc nc))) of
              Inl e \<Rightarrow> (Inl e, self)
            | Inr (chi2, p) \<Rightarrow>
                (Inr (float_lt p (threshold self)),
                 self\<lparr>drift_metrics := (drift_metrics self)\<lparr>label_drift := Some
                   \<lparr>chi2_statistic = chi2, chi2_p_value = p,
                    chi2_drift_detected = float_lt p (threshold self),
                    old_distribution = fst (label_distributions oc nc),
                    new_distribution = snd (label_distributions oc nc)\<rparr>\<rparr>\<rparr>))"
proof -
  from assms(3,4) have "(l, 0) \<in> set (dist_of oc)"
    unfolding dist_of_set by (auto simp: image_iff count_list_0_iff)
  then show ?thesis
    unfolding label_distributions_eq fst_conv snd_conv
    using detect_label_drift_eq [OF assms(1,2)] by simp
qed

text \<open>Claim C4 at a reference without label 2.\<close>

theorem zero_count_passed_on_witness:
  "sentiment reviews_no_positive = Some [0, 0, 1, 1] \<and> sentiment reviews_shifted = Some [0, 1, 2, 2]
   \<and> (2::int) \<in> {0, 1, 2} \<and> (2::int) \<notin> set [0, 0, 1, 1]
   \<and> (2, 0) \<in> set (fst (label_distributions [0, 0, 1, 1] [0, 1, 2, 2]))
   \<and> fst (detect_label_drift scipy_ref fresh reviews_no_positive reviews_shifted) = Inr True"
proof -
  have a: "sentiment reviews_no_positive = Some [0, 0, 1, 1]" by (simp add: reviews_no_positive_def)
  have b: "sentiment reviews_shifted = Some [0, 1, 2, 2]" by (simp add: reviews_shifted_def)
  have c: "(2::int) \<in> {0, 1, 2}" by simp
  have d: "(2::int) \<notin> set [0, 0, 1, 1]" by simp
  from zero_count_passed_on [OF a b c d, of scipy_ref fresh]
  have "(2, 0) \<in> set (fst (label_distributions [0, 0, 1, 1] [0, 1, 2, 2]))" by blast
  with a b c d show ?thesis by (simp add: label_no_positive)
qed

subsection \<open>The threshold at construction\<close>

text \<open>
  Claim C5 as stated fails: the constructor accepts the threshold 2, which is outside the
  open interval from 0 to 1, and returns a detector, and a check with that detector runs
  to its end.
\<close>

theorem init_threshold_counterexample:
  "init (Fin 2) = Inr \<lparr>threshold = Fin 2, drift_detected = False, drift_metrics = empty_metrics\<rparr>
   \<and> \<not> (0 < (2::real) \<and> (2::real) < 1)
   \<and> fst (check_drift scipy_ref example_fs ''2024-05-01T12:00:00''
        \<lparr>threshold = Fin 2, drift_detected = False, drift_metrics = empty_metrics\<rparr>
        ''full.csv'' ''full.csv'') = Inr True"
  by (simp add: init_def) (simp add: eval_defs reviews_full_def example_fs_def)

text \<open>
  Claim C5, as the code has it. The constructor succeeds for every threshold and stores it
  unchanged, with \<open>drift_detected\<close> false and an empty report.
\<close>

theorem init_accepts_any_threshold:
  "\<exists>d. init thr = Inr d \<and> threshold d = thr \<and> drift_detected d = False \<and>
        drift_metrics d = empty_metrics"
  by (simp add: init_def)

text \<open>Claim C5 at the threshold 2.\<close>

theorem init_accepts_any_threshold_witness:
  "\<exists>d. init (Fin 2) = Inr d \<and> threshold d = Fin 2"
  using init_accepts_any_threshold [of "Fin 2"] by blast

subsection \<open>Identical label distributions\<close>

lemma scipy_chisquare_same: "\<exists>stat p. scipy_chisquare Q v v = Inr (stat, p)"
  by (simp add: scipy_chisquare_def sums_agree_refl Let_def)

text \<open>
  Claim C6 as stated fails. Two equal tables without label 2 have identical label
  distributions, and the recorded statistic and p-value are NaN, neither 0 nor 1. With all
  three labels present and the threshold 2, the p-value 1 is below the threshold and drift
  is detected.
\<close>

theorem identical_nan_counterexample:
  "chi2_statistic (the (label_drift (drift_metrics
      (snd (detect_label_drift scipy_ref fresh reviews_two_labels reviews_two_labels))))) = NaN
   \<and> chi2_p_value (the (label_drift (drift_metrics
      (snd (detect_label_drift scipy_ref fresh reviews_two_labels reviews_two_labels))))) = NaN
   \<and> fst (detect_label_drift scipy_ref fresh reviews_two_labels reviews_two_labels) = Inr False
   \<and> fst (label_distributions [0, 1] [0, 1]) = snd (label_distributions [0, 1] [0, 1])
   \<and> fst (detect_label_drift scipy_ref (fresh\<lparr>threshold := Fin 2\<rparr>) reviews_full reviews_full) = Inr True"
  by (simp add: label_two) (simp add: eval_defs reviews_full_def)

text \<open>
  Claim C6, as the code has it, with the modelled chi-square routine. If every label has
  the same count in the reference and in the candidate, \<open>detect_label_drift\<close> returns.
  The statistic is 0 and the p-value is 1 when each of 0, 1, 2 occurs; both are NaN when
  one of them does not occur. \<open>drift_detected\<close> is the comparison of the p-value with the
  threshold: it is false for every threshold that is at most 1, and for every threshold
  when one of the three labels does not occur.
\<close>

theorem identical_distributions:
  assumes "sentiment old_data = Some oc" "sentiment new_data = Some nc"
    and same: "\<forall>l. count_list nc l = count_list oc l"
  shows "\<exists>chi2 p.
      detect_label_drift (scipy Q K) self old_data new_data =
           (Inr (float_lt p (threshold self)),
            self\<lparr>drift_metrics := (drift_metrics self)\<lparr>label_drift := Some
              \<lparr>chi2_statistic = chi2, chi2_p_value = p,
               chi2_drift_detected = float_lt p (threshold self),
               old_distribution = fst (label_distributions oc nc),
               new_distribution = snd (label_distributions oc nc)\<rparr>\<rparr>\<rparr>)
       \<and> (if {0, 1, 2} \<subseteq> set oc then chi2 = Fin 0 \<and> p = Fin 1 else chi2 = NaN \<and> p = NaN)
       \<and> (\<forall>t. threshold self = Fin t \<and> t \<le> 1 \<longrightarrow> \<not> float_lt p (threshold self))
       \<and> (\<not> {0, 1, 2} \<subseteq> set oc \<longrightarrow> \<not> float_lt p (threshold self))"
proof -
  from same have s: "set nc = set oc"
    by (metis count_list_0_iff subsetI subset_antisym)
  then have e: "dist_of nc = dist_of oc"
    using same by (simp add: dist_of_def keys_of_def)
  let ?v = "values_of (dist_of oc)"
  have vs: "set ?v = (\<lambda>k. int (count_list oc k)) ` (set oc \<union> {0, 1, 2})"
    by (simp only: values_of_def set_map dist_of_set image_image snd_conv)
  have len: "2 \<le> length ?v" using dist_of_length [of oc] by (simp add: values_of_def)
  obtain chi2 p where c: "scipy_chisquare Q ?v ?v = Inr (chi2, p)"
    using scipy_chisquare_same by blast
  have d: "detect_label_drift (scipy Q K) self old_data new_data =
           (Inr (float_lt p (threshold self)),
            self\<lparr>drift_metrics := (drift_metrics self)\<lparr>label_drift := Some
              \<lparr>chi2_statistic = chi2, chi2_p_value = p,
               chi2_drift_detected = float_lt p (threshold self),
               old_distribution = fst (label_distributions oc nc),
               new_distribution = snd (label_distributions oc nc)\<rparr>\<rparr>\<rparr>)"
    using detect_label_drift_eq [OF assms(1,2), of "scipy Q K" self] c
    by (simp add: scipy_def e label_distributions_eq)
  have v: "if {0, 1, 2} \<subseteq> set oc then chi2 = Fin 0 \<and> p = Fin 1 else chi2 = NaN \<and> p = NaN"
  proof (cases "{0, 1, 2} \<subseteq> set oc")
    case True
    with vs have "\<forall>c\<in>set ?v. c \<noteq> 0" by (auto simp: count_list_0_iff)
    from scipy_chisquare_equal [OF this len, of Q] c True show ?thesis by simp
  next
    case False
    then obtain l where "l \<in> {0, 1, 2}" "l \<notin> set oc" by blast
    then have "int (count_list oc l) \<in> set ?v" "count_list oc l = 0"
      unfolding vs by (auto simp: count_list_0_iff)
    then have "(0, 0) \<in> set (zip ?v ?v)" by (simp add: zip_same)
    with scipy_chisquare_p [OF c dist_of_nonneg len] False show ?thesis by simp
  qed
  have t: "\<forall>t. threshold self = Fin t \<and> t \<le> 1 \<longrightarrow> \<not> float_lt p (threshold self)"
    using v by (auto split: if_splits)
  have n: "\<not> {0, 1, 2} \<subseteq> set oc \<longrightarrow> \<not> float_lt p (threshold self)"
    using v by (auto split: if_splits)
  from d v t n show ?thesis by blast
qed

text \<open>
  Claim C6 at two equal tables with all three labels and at two equal tables without the
  label 2, at the default threshold.
\<close>

theorem identical_distributions_witness:
  "sentiment reviews_full = Some [0, 1, 2] \<and> (\<forall>l. count_list [0, 1, 2 :: int] l = count_list [0, 1, 2] l)
   \<and> {0, 1, 2} \<subseteq> set [0, 1, 2 :: int]
   \<and> threshold fresh = Fin (5 / 100) \<and> (5 / 100 :: real) \<le> 1
   \<and> detect_label_drift scipy_ref fresh reviews_full reviews_full =
           (Inr False,
            fresh\<lparr>drift_metrics := (drift_metrics fresh)\<lparr>label_drift := Some
              \<lparr>chi2_statistic = Fin 0, chi2_p_value = Fin 1,
               chi2_drift_detected = False,
               old_distribution = fst (label_distributions [0, 1, 2] [0, 1, 2]),
               new_distribution = snd (label_distributions [0, 1, 2] [0, 1, 2])\<rparr>\<rparr>\<rparr>)
   \<and> sentiment reviews_two_labels = Some [0, 1] \<and> \<not> {0, 1, 2} \<subseteq> set [0, 1 :: int]
   \<and> detect_label_drift scipy_ref fresh reviews_two_labels reviews_two_labels =
           (Inr False,
            fresh\<lparr>drift_metrics := (drift_metrics fresh)\<lparr>label_drift := Some
              \<lparr>chi2_statistic = NaN, chi2_p_value = NaN,
               chi2_drift_detected = False,
               old_distribution = fst (label_distributions [0, 1] [0, 1]),
               new_distribution = snd (label_distributions [0, 1] [0, 1])\<rparr>\<rparr>\<rparr>)"
proof -
  have a: "sentiment reviews_full = Some [0, 1, 2]" by (simp add: reviews_full_def)
  have b: "\<forall>l. count_list [0, 1, 2 :: int] l = count_list [0, 1, 2] l" by simp
  have c: "{0, 1, 2} \<subseteq> set [0, 1, 2 :: int]" by simp
  have t: "threshold fresh = Fin (5 / 100)" "(5 / 100 :: real) \<le> 1"
    by (simp_all add: fresh_def default_threshold_def)
  have a': "sentiment reviews_two_labels = Some [0, 1]" by (simp add: reviews_two_labels_def)
  have b': "\<forall>l. count_list [0, 1 :: int] l = count_list [0, 1] l" by simp
  have c': "\<not> {0, 1, 2} \<subseteq> set [0, 1 :: int]" by simp
  from identical_distributions [OF a a b, of some_sf some_ks_prob fresh] c t
  have 1: "detect_label_drift (scipy some_sf some_ks_prob) fresh reviews_full reviews_full =
           (Inr False,
            fresh\<lparr>drift_metrics := (drift_metrics fresh)\<lparr>label_drift := Some
              \<lparr>chi2_statistic = Fin 0, chi2_p_value = Fin 1,
               chi2_drift_detected = False,
               old_distribution = fst (label_distributions [0, 1, 2] [0, 1, 2]),
               new_distribution = snd (label_distributions [0, 1, 2] [0, 1, 2])\<rparr>\<rparr>\<rparr>)"
    by (auto split: if_splits)
  from identical_distributions [OF a' a' b', of some_sf some_ks_prob fresh] c'
  have 2: "detect_label_drift (scipy some_sf some_ks_prob) fresh reviews_two_labels reviews_two_labels =
           (Inr False,
            fresh\<lparr>drift_metrics := (drift_metrics fresh)\<lparr>label_drift := Some
              \<lparr>chi2_statistic = NaN, chi2_p_value = NaN,
               chi2_drift_detected = False,
               old_distribution = fst (label_distributions [0, 1] [0, 1]),
               new_distribution = snd (label_distributions [0, 1] [0, 1])\<rparr>\<rparr>\<rparr>)"
    by (auto split: if_splits)
  from a b c t a' c' 1 2 show ?thesis by (simp add: scipy_ref_def)
qed

subsection \<open>The zero-filled distributions\<close>

text \<open>
  Claim C7. Each of the two distributions that \<open>detect_label_drift\<close> builds has the labels
  0, 1 and 2 among its keys, with count 0 for a label that does not occur, every count is
  the number of occurrences of its key, the keys are sorted and distinct, and the counts
  add up to the number of records. The distributions recorded in the report are the ones
  built.
\<close>

theorem distribution_invariant:
  assumes "label_distributions oc nc = (od, nd)"
  shows "{0, 1, 2} \<subseteq> set (index od) \<and> {0, 1, 2} \<subseteq> set (index nd)
       \<and> (\<forall>l\<in>{0, 1, 2}. l \<notin> set oc \<longrightarrow> (l, 0) \<in> set od)
       \<and> (\<forall>l\<in>{0, 1, 2}. l \<notin> set nc \<longrightarrow> (l, 0) \<in> set nd)
       \<and> (\<forall>(k, c)\<in>set od. c = int (count_list oc k))
       \<and> (\<forall>(k, c)\<in>set nd. c = int (count_list nc k))
       \<and> sorted (index od) \<and> distinct (index od)
       \<and> sorted (index nd) \<and> distinct (index nd)
       \<and> sum_list (values_of od) = int (length oc)
       \<and> sum_list (values_of nd) = int (length nc)
       \<and> (\<forall>L self old_data new_data b self'.
            sentiment old_data = Some oc \<and> sentiment new_data = Some nc \<and>
            detect_label_drift L self old_data new_data = (Inr b, self') \<longrightarrow>
            (\<exists>r. label_drift (drift_metrics self') = Some r \<and>
                 old_distribution r = od \<and> new_distribution r = nd))"
proof -
  from assms have od: "od = dist_of oc" and nd: "nd = dist_of nc"
    by (simp_all add: label_distributions_eq)
  have z: "\<And>xs l. l \<in> {0, 1, 2} \<Longrightarrow> l \<notin> set xs \<Longrightarrow> (l, 0) \<in> set (dist_of xs)"
    unfolding dist_of_set by (auto simp: image_iff count_list_0_iff)
  have c: "\<And>xs. \<forall>(k, c)\<in>set (dist_of xs). c = int (count_list xs k)"
    unfolding dist_of_set by blast
  have d: "\<forall>L self old_data new_data b self'.
            sentiment old_data = Some oc \<and> sentiment new_data = Some nc \<and>
            detect_label_drift L self old_data new_data = (Inr b, self') \<longrightarrow>
            (\<exists>r. label_drift (drift_metrics self') = Some r \<and>
                 old_distribution r = od \<and> new_distribution r = nd)"
    by (auto simp: detect_label_drift_eq od nd split: sum.splits prod.splits)
  have k: "\<And>xs. {0, 1, 2} \<subseteq> set (index (dist_of xs))"
    by (simp only: dist_of_index keys_of_set) blast
  have s1: "sorted (index od)" "distinct (index od)" "sorted (index nd)" "distinct (index nd)"
    by (simp_all only: od nd dist_of_index keys_of_sorted keys_of_distinct)
  have s2: "sum_list (values_of od) = int (length oc)" "sum_list (values_of nd) = int (length nc)"
    by (simp_all only: od nd dist_of_sum)
  have z1: "\<forall>l\<in>{0, 1, 2}. l \<notin> set oc \<longrightarrow> (l, 0) \<in> set od"
    unfolding od using z by blast
  have z2: "\<forall>l\<in>{0, 1, 2}. l \<notin> set nc \<longrightarrow> (l, 0) \<in> set nd"
    unfolding nd using z by blast
  show ?thesis
    apply (intro conjI)
    subgoal unfolding od by (rule k)
    subgoal unfolding nd by (rule k)
    subgoal by (rule z1)
    subgoal by (rule z2)
    subgoal unfolding od by (rule c)
    subgoal unfolding nd by (rule c)
    subgoal by (rule s1)
    subgoal by (rule s1)
    subgoal by (rule s1)
    subgoal by (rule s1)
    subgoal by (rule s2)
    subgoal by (rule s2)
    subgoal by (rule d)
    done
qed

text \<open>Claim C7 at a reference without label 2.\<close>

theorem distribution_invariant_witness:
  "label_distributions [0, 0, 1, 1] [0, 1, 2, 2] = ([(0, 2), (1, 2), (2, 0)], [(0, 1), (1, 1), (2, 2)])
   \<and> (2 :: int, 0 :: int) \<in> set [(0, 2), (1, 2), (2, 0)]
   \<and> sum_list (values_of [(0, 2), (1, 2), (2, 0)]) = int (length [0, 0, 1, 1 :: int])
   \<and> sorted (index [(0, 2), (1, 2), (2, 0)])
   \<and> sentiment reviews_no_positive = Some [0, 0, 1, 1] \<and> sentiment reviews_shifted = Some [0, 1, 2, 2]
   \<and> detect_label_drift scipy_ref fresh reviews_no_positive reviews_shifted
        = (Inr True, snd (detect_label_drift scipy_ref fresh reviews_no_positive reviews_shifted))
   \<and> (\<exists>r. label_drift (drift_metrics (snd (detect_label_drift scipy_ref fresh reviews_no_positive reviews_shifted))) = Some r
         \<and> old_distribution r = [(0, 2), (1, 2), (2, 0)] \<and> new_distribution r = [(0, 1), (1, 1), (2, 2)])"
proof -
  let ?l = "detect_label_drift scipy_ref fresh reviews_no_positive reviews_shifted"
  have e: "label_distributions [0, 0, 1, 1] [0, 1, 2, 2] = ([(0, 2), (1, 2), (2, 0)], [(0, 1), (1, 1), (2, 2)])"
    by (simp add: eval_defs)
  have a: "sentiment reviews_no_positive = Some [0, 0, 1, 1]" by (simp add: reviews_no_positive_def)
  have b: "sentiment reviews_shifted = Some [0, 1, 2, 2]" by (simp add: reviews_shifted_def)
  have l: "?l = (Inr True, snd ?l)" by (simp add: label_no_positive)
  note inv = distribution_invariant [OF e]
  note c3 = inv [THEN conjunct2, THEN conjunct2, THEN conjunct1]
  note c7 = inv [THEN conjunct2, THEN conjunct2, THEN conjunct2, THEN conjunct2, THEN conjunct2,
      THEN conjunct2, THEN conjunct1]
  note c11 = inv [THEN conjunct2, THEN conjunct2, THEN conjunct2, THEN conjunct2, THEN conjunct2,
      THEN conjunct2, THEN conjunct2, THEN conjunct2, THEN conjunct2, THEN conjunct2, THEN conjunct1]
  note c13 = inv [THEN conjunct2, THEN conjunct2, THEN conjunct2, THEN conjunct2, THEN conjunct2,
      THEN conjunct2, THEN conjunct2, THEN conjunct2, THEN conjunct2, THEN conjunct2, THEN conjunct2,
      THEN conjunct2, rule_format]
  have 1: "\<forall>l\<in>{0, 1, 2 :: int}. l \<notin> set [0, 0, 1, 1] \<longrightarrow> (l, 0 :: int) \<in> set [(0, 2), (1, 2), (2, 0)]"
    by (rule c3)
  have 2: "sum_list (values_of [(0, 2), (1, 2), (2, 0)]) = int (length [0, 0, 1, 1 :: int])"
    by (rule c11)
  have 3: "sorted (index [(0, 2), (1, 2), (2, 0)])" by (rule c7)
  have 4: "\<exists>r. label_drift (drift_metrics (snd ?l)) = Some r
         \<and> old_distribution r = [(0, 2), (1, 2), (2, 0)] \<and> new_distribution r = [(0, 1), (1, 1), (2, 2)]"
    by (rule c13 [OF conjI [OF a conjI [OF b l]]])
  from 1 have 5: "(2 :: int, 0 :: int) \<in> set [(0, 2), (1, 2), (2, 0)]" by simp
  from e a b l 2 3 4 5 show ?thesis by (intro conjI)
qed

subsection \<open>Repeating a check\<close>

text \<open>
  Claim C8. A second \<open>check_drift\<close> on the detector that the first one left, with the same
  files and the same library, gives the same result and the same detector: threshold,
  \<open>drift_detected\<close>, both test results and \<open>overall_drift\<close> are equal, and only the
  timestamp is that of the second call (when the calls succeed). The first call may start
  from any detector state.
\<close>

theorem check_drift_idempotent:
  assumes 1: "check_drift L fs now1 self p q = (r1, s1)"
    and 2: "check_drift L fs now2 s1 p q = (r2, s2)"
  shows "r2 = r1 \<and> threshold s2 = threshold s1 \<and> drift_detected s2 = drift_detected s1 \<and>
         label_drift (drift_metrics s2) = label_drift (drift_metrics s1) \<and>
         text_length_drift (drift_metrics s2) = text_length_drift (drift_metrics s1) \<and>
         overall_drift (drift_metrics s2) = overall_drift (drift_metrics s1) \<and>
         timestamp (drift_metrics s2) =
           (case r1 of Inl _ \<Rightarrow> timestamp (drift_metrics s1) | Inr _ \<Rightarrow> Some now2)"
  using 1 2
  by (auto simp: check_drift_def detect_label_drift_def detect_text_length_drift_def Let_def
      split: sum.splits prod.splits)

text \<open>Claim C8 at two calls with different clock readings.\<close>

theorem check_drift_idempotent_witness:
  "check_drift scipy_ref example_fs ''2024-05-01T12:00:00'' fresh ''full.csv'' ''full.csv''
     = (Inr False, snd (check_drift scipy_ref example_fs ''2024-05-01T12:00:00'' fresh ''full.csv'' ''full.csv''))
   \<and> fst (check_drift scipy_ref example_fs ''2024-05-02T09:30:00''
        (snd (check_drift scipy_ref example_fs ''2024-05-01T12:00:00'' fresh ''full.csv'' ''full.csv''))
        ''full.csv'' ''full.csv'') = Inr False
   \<and> timestamp (drift_metrics (snd (check_drift scipy_ref example_fs ''2024-05-02T09:30:00''
        (snd (check_drift scipy_ref example_fs ''2024-05-01T12:00:00'' fresh ''full.csv'' ''full.csv''))
        ''full.csv'' ''full.csv''))) = Some ''2024-05-02T09:30:00''
   \<and> label_drift (drift_metrics (snd (check_drift scipy_ref example_fs ''2024-05-02T09:30:00''
        (snd (check_drift scipy_ref example_fs ''2024-05-01T12:00:00'' fresh ''full.csv'' ''full.csv''))
        ''full.csv'' ''full.csv'')))
     = label_drift (drift_metrics (snd (check_drift scipy_ref example_fs ''2024-05-01T12:00:00'' fresh ''full.csv'' ''full.csv'')))"
proof -
  let ?c1 = "check_drift scipy_ref example_fs ''2024-05-01T12:00:00'' fresh ''full.csv'' ''full.csv''"
  let ?c2 = "check_drift scipy_ref example_fs ''2024-05-02T09:30:00'' (snd ?c1) ''full.csv'' ''full.csv''"
  have 1: "?c1 = (Inr False, snd ?c1)" by (simp add: check_full)
  have 2: "?c2 = (fst ?c2, snd ?c2)" by simp
  from check_drift_idempotent [OF 1 2]
  have "fst ?c2 = Inr False" "timestamp (drift_metrics (snd ?c2)) = Some ''2024-05-02T09:30:00''"
    "label_drift (drift_metrics (snd ?c2)) = label_drift (drift_metrics (snd ?c1))"
    by simp_all
  with 1 show ?thesis by blast
qed

subsection \<open>Record sets of different sizes\<close>

text \<open>
  Claim C9 as stated fails with the modelled chi-square routine, which compares the two sums
  up to a relative tolerance. A reference of 80000002 records and a candidate of 80000003
  records differ in size, the relative difference of the sums, \<open>1 / 80000002\<close>, is below
  the tolerance \<open>1 / 67108864\<close>, and the test returns.
\<close>

theorem size_tolerance_counterexample:
  "fst (detect_label_drift scipy_ref fresh (reviews_large 80000000) (reviews_large 80000001)) = Inr False
   \<and> length (replicate 80000000 (0::int) @ [1, 2]) = 80000002
   \<and> length (replicate 80000001 (0::int) @ [1, 2]) = 80000003"
proof -
  have a: "sentiment (reviews_large 80000000) = Some (replicate 80000000 0 @ [1, 2])"
    and b: "sentiment (reviews_large 80000001) = Some (replicate 80000001 0 @ [1, 2])"
    by (simp_all add: reviews_large_def)
  have "fst (detect_label_drift scipy_ref fresh (reviews_large 80000000) (reviews_large 80000001)) = Inr False"
    unfolding detect_label_drift_eq [OF a b]
    by (simp add: dist_of_large values_of_def scipy_ref_def scipy_def chisquare_large
        fresh_def default_threshold_def exp_small)
  then show ?thesis by simp
qed

text \<open>
  Claim C9, as the code has it, with the modelled chi-square routine. \<open>detect_label_drift\<close>
  returns only when the two record counts agree up to the relative tolerance of the
  routine, \<open>1 / 67108864\<close> (about \<open>1.49e-8\<close>), the difference taken relative to the
  smaller count. When one of the sets has fewer than 67108864 records this means equal
  counts: with unequal counts the categorical test raises \<open>ValueError\<close>, and so does
  \<open>check_drift\<close>.
\<close>

theorem size_agreement_needed:
  assumes "sentiment old_data = Some oc" "sentiment new_data = Some nc"
  shows "(detect_label_drift (scipy Q K) self old_data new_data = (Inr b, self') \<longrightarrow>
            2 ^ 26 * \<bar>int (length nc) - int (length oc)\<bar> \<le> min (int (length nc)) (int (length oc)))
       \<and> (length oc \<noteq> length nc \<and> (length oc < 2 ^ 26 \<or> length nc < 2 ^ 26) \<longrightarrow>
            (\<exists>msg. detect_label_drift (scipy Q K) self old_data new_data = (Inl (ValueError msg), self)))
       \<and> (length oc \<noteq> length nc \<and> (length oc < 2 ^ 26 \<or> length nc < 2 ^ 26) \<and>
          read_csv fs p = Inr old_data \<and> read_csv fs q = Inr new_data \<longrightarrow>
            (\<exists>msg. check_drift (scipy Q K) fs now self p q = (Inl (ValueError msg), self)))"
proof -
  let ?obs = "values_of (dist_of nc)" and ?ex = "values_of (dist_of oc)"
  have d: "detect_label_drift (scipy Q K) self old_data new_data =
     (case scipy_chisquare Q ?obs ?ex of
        Inl e \<Rightarrow> (Inl e, self)
      | Inr (chi2, p) \<Rightarrow>
          (Inr (float_lt p (threshold self)),
           self\<lparr>drift_metrics := (drift_metrics self)\<lparr>label_drift := Some
             \<lparr>chi2_statistic = chi2, chi2_p_value = p,
              chi2_drift_detected = float_lt p (threshold self),
              old_distribution = dist_of oc, new_distribution = dist_of nc\<rparr>\<rparr>\<rparr>))"
    using detect_label_drift_eq [OF assms, of "scipy Q K" self] by (simp add: scipy_def)
  have iff: "\<not> sums_disagree (sum_list ?obs) (sum_list ?ex) \<longleftrightarrow>
      2 ^ 26 * \<bar>int (length nc) - int (length oc)\<bar> \<le> min (int (length nc)) (int (length oc))"
    by (simp only: dist_of_sum) (rule sums_disagree_iff, simp_all)
  have 1: "detect_label_drift (scipy Q K) self old_data new_data = (Inr b, self') \<longrightarrow>
            2 ^ 26 * \<bar>int (length nc) - int (length oc)\<bar> \<le> min (int (length nc)) (int (length oc))"
    using scipy_chisquare_cases [of Q ?obs ?ex] iff by (auto simp: d)
  have 2: "length oc \<noteq> length nc \<and> (length oc < 2 ^ 26 \<or> length nc < 2 ^ 26) \<longrightarrow>
      (\<exists>msg. detect_label_drift (scipy Q K) self old_data new_data = (Inl (ValueError msg), self))"
  proof
    assume h: "length oc \<noteq> length nc \<and> (length oc < 2 ^ 26 \<or> length nc < 2 ^ 26)"
    then have "\<not> 2 ^ 26 * \<bar>int (length nc) - int (length oc)\<bar> \<le> min (int (length nc)) (int (length oc))"
      by (auto simp: min_def abs_if)
    with iff have "sums_disagree (sum_list ?obs) (sum_list ?ex)" by blast
    with scipy_chisquare_cases [of Q ?obs ?ex]
    obtain msg where "scipy_chisquare Q ?obs ?ex = Inl (ValueError msg)" by blast
    then show "\<exists>msg. detect_label_drift (scipy Q K) self old_data new_data = (Inl (ValueError msg), self)"
      by (simp add: d)
  qed
  have 3: "length oc \<noteq> length nc \<and> (length oc < 2 ^ 26 \<or> length nc < 2 ^ 26) \<and>
          read_csv fs p = Inr old_data \<and> read_csv fs q = Inr new_data \<longrightarrow>
      (\<exists>msg. check_drift (scipy Q K) fs now self p q = (Inl (ValueError msg), self))"
  proof
    assume h: "length oc \<noteq> length nc \<and> (length oc < 2 ^ 26 \<or> length nc < 2 ^ 26) \<and>
          read_csv fs p = Inr old_data \<and> read_csv fs q = Inr new_data"
    with 2 obtain msg where
      "detect_label_drift (scipy Q K) self old_data new_data = (Inl (ValueError msg), self)" by blast
    with h have "check_drift (scipy Q K) fs now self p q = (Inl (ValueError msg), self)"
      by (simp add: check_drift_def)
    then show "\<exists>msg. check_drift (scipy Q K) fs now self p q = (Inl (ValueError msg), self)" by blast
  qed
  from 1 2 3 show ?thesis by blast
qed

text \<open>Claim C9 at tables of three and of four records.\<close>

theorem size_agreement_needed_witness:
  "sentiment reviews_full = Some [0, 1, 2]
   \<and> detect_label_drift scipy_ref fresh reviews_full reviews_full
       = (Inr False, snd (detect_label_drift scipy_ref fresh reviews_full reviews_full))
   \<and> 2 ^ 26 * \<bar>int (length [0, 1, 2 :: int]) - int (length [0, 1, 2 :: int])\<bar>
       \<le> min (int (length [0, 1, 2 :: int])) (int (length [0, 1, 2 :: int]))
   \<and> sentiment reviews_shifted = Some [0, 1, 2, 2]
   \<and> length [0, 1, 2 :: int] \<noteq> length [0, 1, 2, 2 :: int] \<and> length [0, 1, 2 :: int] < 2 ^ 26
   \<and> (\<exists>msg. detect_label_drift scipy_ref fresh reviews_full reviews_shifted = (Inl (ValueError msg), fresh))"
proof -
  let ?l = "detect_label_drift scipy_ref fresh reviews_full reviews_full"
  have a: "sentiment reviews_full = Some [0, 1, 2]" by (simp add: reviews_full_def)
  have b: "sentiment reviews_shifted = Some [0, 1, 2, 2]" by (simp add: reviews_shifted_def)
  have l: "detect_label_drift (scipy some_sf some_ks_prob) fresh reviews_full reviews_full
      = (Inr False, snd ?l)"
    by (simp add: label_full flip: scipy_ref_def)
  have n: "length [0, 1, 2 :: int] \<noteq> length [0, 1, 2, 2 :: int] \<and>
      (length [0, 1, 2 :: int] < 2 ^ 26 \<or> length [0, 1, 2, 2 :: int] < 2 ^ 26)" by simp
  from size_agreement_needed [OF a a, of some_sf some_ks_prob fresh False "snd ?l"] l
  have 1: "2 ^ 26 * \<bar>int (length [0, 1, 2 :: int]) - int (length [0, 1, 2 :: int])\<bar>
       \<le> min (int (length [0, 1, 2 :: int])) (int (length [0, 1, 2 :: int]))" by blast
  from size_agreement_needed [OF a b, of some_sf some_ks_prob fresh] n
  have 2: "\<exists>msg. detect_label_drift (scipy some_sf some_ks_prob) fresh reviews_full reviews_shifted
      = (Inl (ValueError msg), fresh)" by blast
  from a b l 1 2 show ?thesis by (simp add: scipy_ref_def)
qed

subsection \<open>Labels outside the domain\<close>

text \<open>
  Claim C10. \<open>detect_label_drift\<close> does not reject a label outside 0, 1, 2. When the test
  returns, every label that occurs in a record set is a key of the reported distribution of
  that set, with its number of occurrences, and the keys are exactly the labels that occur
  together with 0, 1 and 2. When the test raises, the error is the one the chi-square
  routine raised on the two distributions.
\<close>

theorem extra_labels_reported:
  assumes "sentiment old_data = Some oc" "sentiment new_data = Some nc"
  shows "(detect_label_drift L self old_data new_data = (Inr b, self') \<longrightarrow>
           (\<exists>r. label_drift (drift_metrics self') = Some r
              \<and> (\<forall>l\<in>set oc. map_of (old_distribution r) l = Some (int (count_list oc l)))
              \<and> (\<forall>l\<in>set nc. map_of (new_distribution r) l = Some (int (count_list nc l)))
              \<and> set (map fst (old_distribution r)) = set oc \<union> {0, 1, 2}
              \<and> set (map fst (new_distribution r)) = set nc \<union> {0, 1, 2}))
       \<and> (detect_label_drift L self old_data new_data = (Inl e, self') \<longrightarrow>
            chisquare L (values_of (snd (label_distributions oc nc)))
                        (values_of (fst (label_distributions oc nc))) = Inl e)"
proof (intro conjI impI)
  assume "detect_label_drift L self old_data new_data = (Inr b, self')"
  then obtain chi2 p where
    "label_drift (drift_metrics self') = Some
             \<lparr>chi2_statistic = chi2, chi2_p_value = p,
              chi2_drift_detected = float_lt p (threshold self),
              old_distribution = dist_of oc, new_distribution = dist_of nc\<rparr>"
    by (auto simp: detect_label_drift_eq [OF assms] split: sum.splits prod.splits)
  moreover have "\<And>xs. \<forall>l\<in>set xs. map_of (dist_of xs) l = Some (int (count_list xs l))"
    by (simp add: dist_of_map_of)
  moreover have "\<And>xs. set (map fst (dist_of xs)) = set xs \<union> {0, 1, 2}"
    using dist_of_index keys_of_set by (simp only: index_def)
  ultimately show "\<exists>r. label_drift (drift_metrics self') = Some r
              \<and> (\<forall>l\<in>set oc. map_of (old_distribution r) l = Some (int (count_list oc l)))
              \<and> (\<forall>l\<in>set nc. map_of (new_distribution r) l = Some (int (count_list nc l)))
              \<and> set (map fst (old_distribution r)) = set oc \<union> {0, 1, 2}
              \<and> set (map fst (new_distribution r)) = set nc \<union> {0, 1, 2}"
    by simp
next
  assume "detect_label_drift L self old_data new_data = (Inl e, self')"
  then show "chisquare L (values_of (snd (label_distributions oc nc)))
                        (values_of (fst (label_distributions oc nc))) = Inl e"
    by (auto simp: detect_label_drift_eq [OF assms] label_distributions_eq split: sum.splits prod.splits)
qed

text \<open>Claim C10 at two equal tables that contain the label 5.\<close>

theorem extra_labels_reported_witness:
  "sentiment reviews_extra = Some [0, 1, 2, 5]
   \<and> detect_label_drift scipy_ref fresh reviews_extra reviews_extra
       = (Inr False, snd (detect_label_drift scipy_ref fresh reviews_extra reviews_extra))
   \<and> (5::int) \<in> set [0, 1, 2, 5] \<and> (5::int) \<notin> {0, 1, 2}
   \<and> (\<exists>r. label_drift (drift_metrics (snd (detect_label_drift scipy_ref fresh reviews_extra reviews_extra))) = Some r
        \<and> map_of (old_distribution r) 5 = Some 1 \<and> map_of (new_distribution r) 5 = Some 1)"
proof -
  let ?l = "detect_label_drift scipy_ref fresh reviews_extra reviews_extra"
  have a: "sentiment reviews_extra = Some [0, 1, 2, 5]" by (simp add: reviews_extra_def)
  have l: "?l = (Inr False, snd ?l)" by (simp add: label_extra)
  have m: "(5::int) \<in> set [0, 1, 2, 5]" "(5::int) \<notin> {0, 1, 2}" by simp_all
  from extra_labels_reported [OF a a, of scipy_ref fresh False "snd ?l"] l
  obtain r where r: "label_drift (drift_metrics (snd ?l)) = Some r"
    "\<forall>l\<in>set [0, 1, 2, 5]. map_of (old_distribution r) l = Some (int (count_list [0, 1, 2, 5] l))"
    "\<forall>l\<in>set [0, 1, 2, 5]. map_of (new_distribution r) l = Some (int (count_list [0, 1, 2, 5] l))"
    by blast
  from r(2,3) have "map_of (old_distribution r) 5 = Some 1" "map_of (new_distribution r) 5 = Some 1"
    by simp_all
  with r(1) a l m show ?thesis by blast
qed

end
